theory Spec2Isabelle
  imports Main "HOL-Library.Word"
begin

section \<open>JavaScript strings\<close>

text \<open>
  A JavaScript string is a sequence of UTF-16 code units. A code unit is a 16-bit word
  and a string is the list of its code units; \<open>js\<close> gives the string of
  an ASCII literal of the source. Everything the validator does with strings works on
  code units (\<open>replace\<close>, \<open>split\<close>, \<open>includes\<close>, \<open>trim\<close>, comparison), with one exception:
  \<open>String.prototype.toLowerCase\<close> follows the case mapping of the Unicode tables in the
  runtime. That mapping is not part of the repository, and it is a parameter here: the
  functions that lowercase take it as their first argument \<open>toLowerCase\<close>, of type
  \<open>caseMap\<close>, and nothing is assumed about it.
\<close>

type_synonym codeunit = "16 word"

type_synonym jstring = "codeunit list"

type_synonym caseMap = "jstring \<Rightarrow> jstring"

definition js :: "string \<Rightarrow> jstring" where
  "js s = map of_char s"

definition NUL :: codeunit where "NUL = 0"
definition LF :: codeunit where "LF = 10"
definition CR :: codeunit where "CR = 13"
definition SPACE :: codeunit where "SPACE = 32"
definition DQUOTE :: codeunit where "DQUOTE = 34"
definition DOLLAR :: codeunit where "DOLLAR = 36"
definition SQUOTE :: codeunit where "SQUOTE = 39"
definition STAR :: codeunit where "STAR = 42"
definition DOT :: codeunit where "DOT = 46"
definition SLASH :: codeunit where "SLASH = 47"
definition BACKSLASH :: codeunit where "BACKSLASH = 92"
definition BACKQUOTE :: codeunit where "BACKQUOTE = 96"

text \<open>
  The code units that \<open>trim\<close> removes: the white space of ECMAScript (tab, vertical tab,
  form feed, U+FEFF and the space separators U+0020, U+00A0, U+1680, U+2000 to U+200A,
  U+202F, U+205F, U+3000) and its line terminators (line feed, carriage return, U+2028,
  U+2029). Each of them is one code unit.
\<close>

definition isWhiteSpace :: "codeunit \<Rightarrow> bool" where
  "isWhiteSpace c =
     (c \<in> set [0x09, 0x0A, 0x0B, 0x0C, 0x0D, 0x20, 0xA0, 0x1680, 0x2028, 0x2029, 0x202F,
                0x205F, 0x3000, 0xFEFF]
      \<or> (0x2000 \<le> c \<and> c \<le> 0x200A))"

text \<open>\<^verbatim>\<open>s.trim()\<close>\<close>

definition trim :: "jstring \<Rightarrow> jstring" where
  "trim s = rev (dropWhile isWhiteSpace (rev (dropWhile isWhiteSpace s)))"

text \<open>\<^verbatim>\<open>s.split(c)\<close> for a separator of one code unit: never the empty list.\<close>

fun splitOn :: "codeunit \<Rightarrow> jstring \<Rightarrow> jstring list" where
  "splitOn c [] = [[]]"
| "splitOn c (x # xs) =
     (if x = c then [] # splitOn c xs
      else (case splitOn c xs of
              [] \<Rightarrow> [[x]]
            | piece # pieces \<Rightarrow> (x # piece) # pieces))"

text \<open>\<^verbatim>\<open>xs.join(sep)\<close>\<close>

fun joinWith :: "jstring \<Rightarrow> jstring list \<Rightarrow> jstring" where
  "joinWith sep [] = []"
| "joinWith sep [x] = x"
| "joinWith sep (x # y # ys) = x @ sep @ joinWith sep (y # ys)"

text \<open>\<^verbatim>\<open>s.includes(sub)\<close> on strings: \<open>sub\<close> occurs in \<open>s\<close> as a contiguous run.\<close>

fun str_includes :: "jstring \<Rightarrow> jstring \<Rightarrow> bool" where
  "str_includes [] sub = (sub = [])"
| "str_includes (x # xs) sub = (take (length sub) (x # xs) = sub \<or> str_includes xs sub)"

text \<open>
  The text a template literal or a \<open>String\<close> method gives a possibly missing string:
  \<^verbatim>\<open>`${undefined}`\<close> is \<^verbatim>\<open>"undefined"\<close>.
\<close>

definition js_toString :: "jstring option \<Rightarrow> jstring" where
  "js_toString v = (case v of None \<Rightarrow> js ''undefined'' | Some s \<Rightarrow> s)"

section \<open>Path normalizer\<close>

text \<open>\<^verbatim>\<open>p.replace(/\\/g, '/')\<close>\<close>

definition replaceBackslashes :: "jstring \<Rightarrow> jstring" where
  "replaceBackslashes p = map (\<lambda>c. if c = BACKSLASH then SLASH else c) p"

text \<open>
  \<^verbatim>\<open>p.replace(/^\.\/+/, '')\<close>: at the start of the string only, one dot followed by one
  or more slashes is removed; the pattern is not applied again to what follows.
\<close>

fun stripDotSlash :: "jstring \<Rightarrow> jstring" where
  "stripDotSlash (d # s # r) =
     (if d = DOT \<and> s = SLASH then dropWhile (\<lambda>c. c = SLASH) r else d # s # r)"
| "stripDotSlash p = p"

text \<open>
  \<^verbatim>\<open>function normalizeRel(p) { return p.replace(/\\/g, '/').replace(/^\.\/+/, '').trim(); }\<close>
\<close>

definition normalizeRel :: "jstring \<Rightarrow> jstring" where
  "normalizeRel p = trim (stripDotSlash (replaceBackslashes p))"

text \<open>
  \<^verbatim>\<open>function normalizeGitEntry(p) { return normalizeRel(p.replace(/\r/g, '')); }\<close>
\<close>

definition normalizeGitEntry :: "jstring \<Rightarrow> jstring" where
  "normalizeGitEntry p = normalizeRel (filter (\<lambda>c. c \<noteq> CR) p)"

section \<open>Node's \<open>path\<close> module (POSIX flavour)\<close>

text \<open>
  \<open>path.join\<close>, \<open>path.dirname\<close> and \<open>path.basename\<close> belong to the Node runtime, not to
  the repository. They are modelled after \<open>path.posix\<close>: joining keeps the non-empty
  arguments, puts a slash between them and normalizes the result, which drops empty and
  \<open>.\<close> segments and resolves \<open>..\<close> against the segment before it. The Windows variant
  of the module, with its backslashes and drive letters, is not modelled.
\<close>

fun normalizeSegments :: "bool \<Rightarrow> jstring list \<Rightarrow> jstring list \<Rightarrow> jstring list" where
  "normalizeSegments allowAboveRoot acc [] = rev acc"
| "normalizeSegments allowAboveRoot acc (seg # segs) =
     (if seg = [] \<or> seg = (js ''.'') then normalizeSegments allowAboveRoot acc segs
      else if seg = (js ''..'') then
        (case acc of
           [] \<Rightarrow> normalizeSegments allowAboveRoot (if allowAboveRoot then [seg] else []) segs
         | prev # rest \<Rightarrow>
             if prev = (js ''..'')
             then normalizeSegments allowAboveRoot (if allowAboveRoot then seg # acc else acc) segs
             else normalizeSegments allowAboveRoot rest segs)
      else normalizeSegments allowAboveRoot (seg # acc) segs)"

definition path_normalize :: "jstring \<Rightarrow> jstring" where
  "path_normalize p =
     (if p = [] then (js ''.'')
      else
        let isAbsolute = (hd p = SLASH);
            trailingSeparator = (last p = SLASH);
            body = joinWith (js ''/'') (normalizeSegments (\<not> isAbsolute) [] (splitOn (SLASH) p))
        in if body = [] then (if isAbsolute then (js ''/'') else if trailingSeparator then (js ''./'') else (js ''.''))
           else (if isAbsolute then (js ''/'') else []) @ body @ (if trailingSeparator then (js ''/'') else []))"

text \<open>\<^verbatim>\<open>path.join(a, b)\<close>\<close>

definition path_join :: "jstring \<Rightarrow> jstring \<Rightarrow> jstring" where
  "path_join a b =
     (let joined = (if a = [] then b else if b = [] then a else a @ (js ''/'') @ b)
      in if joined = [] then (js ''.'') else path_normalize joined)"

text \<open>
  \<^verbatim>\<open>path.dirname(p)\<close>: scanning from the end down to index 1, the trailing slashes are
  skipped, then the last segment; the result is what stands before the slash found.
\<close>

definition path_dirname :: "jstring \<Rightarrow> jstring" where
  "path_dirname p =
     (if p = [] then (js ''.'')
      else
        let hasRoot = (hd p = SLASH);
            scanned = dropWhile (\<lambda>c. c \<noteq> SLASH) (dropWhile (\<lambda>c. c = SLASH) (rev (tl p)))
        in if scanned = [] then (if hasRoot then (js ''/'') else (js ''.''))
           else if hasRoot \<and> tl scanned = [] then (js ''//'')
           else hd p # rev (tl scanned))"

text \<open>\<^verbatim>\<open>path.basename(p)\<close>: the last segment, trailing slashes ignored.\<close>

definition path_basename :: "jstring \<Rightarrow> jstring" where
  "path_basename p =
     rev (takeWhile (\<lambda>c. c \<noteq> SLASH) (dropWhile (\<lambda>c. c = SLASH) (rev p)))"

section \<open>The world an evaluation runs in\<close>

text \<open>
  What a \<open>throw\<close> carries: an \<open>Error\<close> object with its message, or some other value.
\<close>

datatype thrown = ErrorObj jstring | NonError

text \<open>
  The \<open>TypeError\<close>s of the runtime when a missing (\<open>undefined\<close>) field is used: calling
  \<open>.replace\<close> on it, or iterating over it. The message texts are V8's.
\<close>

definition typeError_replace :: thrown where
  "typeError_replace =
     ErrorObj ((js ''Cannot read properties of undefined (reading '') @ [SQUOTE] @ (js ''replace'') @ [SQUOTE] @ (js '')''))"

definition typeError_notIterable :: thrown where
  "typeError_notIterable = ErrorObj (js ''files is not iterable'')"

text \<open>\<^verbatim>\<open>(e as Error).message\<close>; every value caught there is an \<open>Error\<close>.\<close>

definition error_message :: "thrown \<Rightarrow> jstring" where
  "error_message e = (case e of ErrorObj m \<Rightarrow> m | NonError \<Rightarrow> [])"

datatype file_kind = RegularFile | Directory | OtherKind

text \<open>\<^verbatim>\<open>st.isFile()\<close>\<close>

definition isFile :: "file_kind \<Rightarrow> bool" where
  "isFile k = (k = RegularFile)"

text \<open>
  What \<open>execa(command, {shell: true, cwd, timeout: 20000, reject: false})\<close> gives. With
  \<open>reject: false\<close> the promise resolves with the result also when the subprocess failed,
  was killed or timed out: then there is no exit code (\<open>undefined\<close>), and the output
  captured so far is in the result. The call itself can still raise.
\<close>

record execa_result =
  x_exitCode :: "int option"
  x_stdout :: jstring
  x_stderr :: jstring
  x_timedOut :: bool

datatype execa_outcome = Resolved execa_result | Rejected thrown

text \<open>
  The environment: the filesystem calls of \<open>fs/promises\<close> and the subprocess runner as
  functions of their arguments (\<open>Inl\<close> is the error raised), and the platform constant
  \<^verbatim>\<open>IS_WINDOWS = os.platform() === 'win32'\<close>. The constant \<open>DEBUG\<close>
  (\<^verbatim>\<open>process.env.TT_DEBUG === '1'\<close>) is taken as false, so the debug-only
  \<open>console.log\<close> lines do not appear.
\<close>

record env =
  fs_readdir :: "jstring \<Rightarrow> thrown + jstring list"
  fs_stat :: "jstring \<Rightarrow> thrown + file_kind"
  fs_access :: "jstring \<Rightarrow> thrown + unit"
  fs_readFile :: "jstring \<Rightarrow> thrown + jstring"
  execa :: "jstring \<Rightarrow> jstring \<Rightarrow> execa_outcome"
  IS_WINDOWS :: bool

text \<open>
  Every call an evaluation makes to the outside, in order. \<open>ConsoleLog\<close> carries the text
  given to \<open>console.log\<close>, without the colour that \<open>chalk\<close> puts around it.
\<close>

datatype action =
    Readdir jstring
  | Stat jstring
  | Access jstring
  | ReadFile jstring
  | Exec jstring jstring
  | ConsoleLog jstring

text \<open>
  An \<open>async\<close> function: it reads the environment, and gives the calls it made together
  with the value it returns (\<open>Inr\<close>) or the value it throws (\<open>Inl\<close>).
\<close>

type_synonym 'a io = "env \<Rightarrow> action list \<times> (thrown + 'a)"

definition io_return :: "'a \<Rightarrow> 'a io" where
  "io_return a = (\<lambda>e. ([], Inr a))"

definition io_throw :: "thrown \<Rightarrow> 'a io" where
  "io_throw x = (\<lambda>e. ([], Inl x))"

definition io_bind :: "'a io \<Rightarrow> ('a \<Rightarrow> 'b io) \<Rightarrow> 'b io" where
  "io_bind m k = (\<lambda>e. case m e of
       (t, Inl x) \<Rightarrow> (t, Inl x)
     | (t, Inr a) \<Rightarrow> (case k a e of (t', r) \<Rightarrow> (t @ t', r)))"

text \<open>\<open>try { m }\<close> with the outcome as a value.\<close>

definition io_try :: "'a io \<Rightarrow> (thrown + 'a) io" where
  "io_try m = (\<lambda>e. case m e of (t, r) \<Rightarrow> (t, Inr r))"

text \<open>\<open>try { return m } catch (x) { return h x }\<close>\<close>

definition io_catch :: "'a io \<Rightarrow> (thrown \<Rightarrow> 'a io) \<Rightarrow> 'a io" where
  "io_catch m h = io_bind (io_try m) (\<lambda>r. case r of Inl x \<Rightarrow> h x | Inr a \<Rightarrow> io_return a)"

definition readdir :: "jstring \<Rightarrow> jstring list io" where
  "readdir p = (\<lambda>e. ([Readdir p], fs_readdir e p))"

definition stat :: "jstring \<Rightarrow> file_kind io" where
  "stat p = (\<lambda>e. ([Stat p], fs_stat e p))"

definition access :: "jstring \<Rightarrow> unit io" where
  "access p = (\<lambda>e. ([Access p], fs_access e p))"

definition readFile :: "jstring \<Rightarrow> jstring io" where
  "readFile p = (\<lambda>e. ([ReadFile p], fs_readFile e p))"

definition execa_call :: "jstring \<Rightarrow> jstring \<Rightarrow> execa_result io" where
  "execa_call command cwd = (\<lambda>e. ([Exec command cwd],
     (case execa e command cwd of Resolved r \<Rightarrow> Inr r | Rejected x \<Rightarrow> Inl x)))"

definition console_log :: "jstring \<Rightarrow> unit io" where
  "console_log s = (\<lambda>e. ([ConsoleLog s], Inr ()))"

definition is_windows :: "bool io" where
  "is_windows = (\<lambda>e. ([], Inr (IS_WINDOWS e)))"

text \<open>The value returned, and the calls made.\<close>

definition outcome :: "'a io \<Rightarrow> env \<Rightarrow> thrown + 'a" where
  "outcome m e = snd (m e)"

definition calls :: "'a io \<Rightarrow> env \<Rightarrow> action list" where
  "calls m e = fst (m e)"

section \<open>Command executor (\<open>src/engine/executor.ts\<close>)\<close>

record ExecutionResult =
  success :: bool
  stdout :: jstring
  stderr :: jstring
  error :: "jstring option"

definition executeCommand :: "jstring \<Rightarrow> jstring \<Rightarrow> ExecutionResult io" where
  "executeCommand command cwd =
     io_catch
       (io_bind (execa_call command cwd) (\<lambda>result.
          io_return \<lparr>success = (x_exitCode result = Some 0),
                     stdout = x_stdout result,
                     stderr = x_stderr result,
                     error = None\<rparr>))
       (\<lambda>err.
          io_return \<lparr>success = False, stdout = [], stderr = [],
                     error = Some (case err of ErrorObj m \<Rightarrow> m | NonError \<Rightarrow> (js ''Unknown error''))\<rparr>)"

section \<open>Validator (\<open>src/engine/validator.ts\<close>)\<close>

record ValidationResult =
  passed :: bool
  message :: jstring
  resolvedFile :: "jstring option"

text \<open>The check descriptor: \<open>type\<close> is required by the schema, every other field is optional.\<close>

record Validation =
  vtype :: jstring
  v_file :: "jstring option"
  v_files :: "jstring list option"
  v_branch :: "jstring option"
  v_message :: "jstring option"
  v_content :: "jstring option"

definition quoted :: "jstring \<Rightarrow> jstring" where
  "quoted s = [SQUOTE] @ s @ [SQUOTE]"

definition dquoted :: "jstring \<Rightarrow> jstring" where
  "dquoted s = [DQUOTE] @ s @ [DQUOTE]"

definition getCaseMatches :: "caseMap \<Rightarrow> jstring \<Rightarrow> jstring \<Rightarrow> jstring list io" where
  "getCaseMatches toLowerCase dirPath targetName =
     io_catch
       (io_bind (readdir dirPath) (\<lambda>entries.
          let target = toLowerCase targetName
          in io_return (filter (\<lambda>e. toLowerCase e = target) entries)))
       (\<lambda>_. io_return [])"

definition getActualFilename :: "caseMap \<Rightarrow> jstring \<Rightarrow> jstring \<Rightarrow> jstring option io" where
  "getActualFilename toLowerCase dirPath targetName =
     io_bind (getCaseMatches toLowerCase dirPath targetName) (\<lambda>matches.
       if length matches = 0 then io_return None
       else if length matches = 1 then io_return (Some (hd matches))
       else io_throw (ErrorObj ((js ''Multiple entries match '') @ quoted targetName
              @ (js '' with different casing: '') @ joinWith (js '', '') matches @ (js ''. Keep only one.''))))"

text \<open>
  \<^verbatim>\<open>res.stdout.split('\0').map(s => normalizeGitEntry(s)).filter(Boolean)\<close>
\<close>

definition parseGitEntries :: "jstring \<Rightarrow> jstring list" where
  "parseGitEntries out = filter (\<lambda>s. s \<noteq> []) (map normalizeGitEntry (splitOn NUL out))"

definition getStagedEntries :: "jstring \<Rightarrow> jstring list option io" where
  "getStagedEntries cwd =
     io_bind (executeCommand (js ''git diff --cached --name-only -z'') cwd) (\<lambda>res.
       if \<not> success res then io_return None
       else io_return (Some (parseGitEntries (stdout res))))"

definition getTrackedEntries :: "jstring \<Rightarrow> jstring list option io" where
  "getTrackedEntries cwd =
     io_bind (executeCommand (js ''git ls-files -z'') cwd) (\<lambda>res.
       if \<not> success res then io_return None
       else io_return (Some (parseGitEntries (stdout res))))"

record MatchOutcome =
  match :: "jstring option"
  ambiguous :: bool

definition uniqueCaseInsensitiveMatch :: "caseMap \<Rightarrow> jstring list \<Rightarrow> jstring \<Rightarrow> MatchOutcome" where
  "uniqueCaseInsensitiveMatch toLowerCase list target =
     (let t = toLowerCase target;
          hits = filter (\<lambda>x. toLowerCase x = t) list
      in if length hits = 0 then \<lparr>match = None, ambiguous = False\<rparr>
         else if length hits = 1 then \<lparr>match = Some (hd hits), ambiguous = False\<rparr>
         else \<lparr>match = None, ambiguous = True\<rparr>)"

text \<open>Whether a \<open>string | null\<close> value is truthy: neither \<open>null\<close> nor the empty string.\<close>

definition truthy :: "jstring option \<Rightarrow> bool" where
  "truthy v = (case v of None \<Rightarrow> False | Some s \<Rightarrow> s \<noteq> [])"

definition validateGitInitialized :: "jstring \<Rightarrow> ValidationResult io" where
  "validateGitInitialized cwd =
     io_catch
       (let gitDir = path_join cwd (js ''.git'')
        in io_bind (access gitDir) (\<lambda>_.
             io_return \<lparr>passed = True,
                        message = (js ''Git repository initialized successfully''),
                        resolvedFile = None\<rparr>))
       (\<lambda>_. io_return \<lparr>passed = False,
                        message = (js ''Git repository not found. Try: git init''),
                        resolvedFile = None\<rparr>)"

definition validateFileExists :: "caseMap \<Rightarrow> jstring \<Rightarrow> jstring option \<Rightarrow> ValidationResult io" where
  "validateFileExists toLowerCase cwd file =
     (case file of
        None \<Rightarrow> io_throw typeError_replace
      | Some f \<Rightarrow>
          let rel = normalizeRel f;
              abs = path_join cwd rel;
              dirAbs = path_dirname abs;
              expectedBase = path_basename rel
          in io_bind (io_try (getActualFilename toLowerCase dirAbs expectedBase)) (\<lambda>r.
               case r of
                 Inl e \<Rightarrow> io_return \<lparr>passed = False, message = error_message e, resolvedFile = None\<rparr>
               | Inr actualBase \<Rightarrow>
                   if \<not> truthy actualBase then
                     io_return \<lparr>passed = False,
                                message = (js ''File '') @ f @ (js '' not found''),
                                resolvedFile = None\<rparr>
                   else
                     let ab = the actualBase;
                         actualAbs = path_join dirAbs ab
                     in io_bind (stat actualAbs) (\<lambda>st.
                          if \<not> isFile st then
                            io_bind is_windows (\<lambda>w.
                              let fix = (if w
                                    then (js ''rmdir /s /q '') @ ab @ (js '' && echo Hello>'') @ expectedBase
                                    else (js ''rm -rf '') @ ab @ (js '' && echo '') @ dquoted (js ''Hello'') @ (js '' > '') @ expectedBase)
                              in io_return
                                   \<lparr>passed = False,
                                    message = (js ''A folder named '') @ quoted ab @ (js '' exists, but a file named '')
                                      @ quoted expectedBase @ (js '' is required. Do not use mkdir. Fix: '') @ fix,
                                    resolvedFile = Some (normalizeRel (path_join (path_dirname rel) ab))\<rparr>)
                          else
                            io_bind (if ab \<noteq> expectedBase
                                     then console_log ((js ''Note: File exists as '') @ quoted ab
                                            @ (js '' instead of '') @ quoted expectedBase)
                                     else io_return ()) (\<lambda>_.
                              io_return
                                \<lparr>passed = True,
                                 message = (js ''File '') @ f @ (js '' exists (as '') @ ab @ (js '')''),
                                 resolvedFile = Some (normalizeRel (path_join (path_dirname rel) ab))\<rparr>))))"

text \<open>
  The loop of \<open>validateFilesExist\<close>: the three lists it fills, or the verdict of its
  early \<open>return\<close>.
\<close>

type_synonym files_acc = "jstring list \<times> (jstring \<times> jstring) list \<times> (jstring \<times> jstring) list"

fun filesExistLoop :: "caseMap \<Rightarrow> jstring \<Rightarrow> jstring list \<Rightarrow> files_acc \<Rightarrow> (ValidationResult + files_acc) io" where
  "filesExistLoop toLowerCase cwd [] acc = io_return (Inr acc)"
| "filesExistLoop toLowerCase cwd (file # files) acc =
     (let missing = fst acc; wrongType = fst (snd acc); wrongCase = snd (snd acc);
          rel = normalizeRel file;
          abs = path_join cwd rel;
          dirAbs = path_dirname abs;
          expectedBase = path_basename rel
      in io_bind (io_try (getActualFilename toLowerCase dirAbs expectedBase)) (\<lambda>r.
           case r of
             Inl e \<Rightarrow> io_return (Inl \<lparr>passed = False, message = error_message e, resolvedFile = None\<rparr>)
           | Inr actualBase \<Rightarrow>
               if \<not> truthy actualBase then
                 filesExistLoop toLowerCase cwd files (missing @ [file], wrongType, wrongCase)
               else
                 let ab = the actualBase;
                     actualAbs = path_join dirAbs ab
                 in io_bind (stat actualAbs) (\<lambda>st.
                      if \<not> isFile st then
                        filesExistLoop toLowerCase cwd files (missing, wrongType @ [(expectedBase, ab)], wrongCase)
                      else if ab \<noteq> expectedBase then
                        filesExistLoop toLowerCase cwd files (missing, wrongType, wrongCase @ [(expectedBase, ab)])
                      else filesExistLoop toLowerCase cwd files (missing, wrongType, wrongCase))))"

text \<open>\<open>xs.forEach(x => f x)\<close> for an \<open>f\<close> that only prints.\<close>

fun io_forEach :: "('a \<Rightarrow> unit io) \<Rightarrow> 'a list \<Rightarrow> unit io" where
  "io_forEach f [] = io_return ()"
| "io_forEach f (x # xs) = io_bind (f x) (\<lambda>_. io_forEach f xs)"

definition validateFilesExist :: "caseMap \<Rightarrow> jstring \<Rightarrow> jstring list option \<Rightarrow> ValidationResult io" where
  "validateFilesExist toLowerCase cwd files =
     (case files of
        None \<Rightarrow> io_throw typeError_notIterable
      | Some fs \<Rightarrow>
          io_bind (filesExistLoop toLowerCase cwd fs ([], [], [])) (\<lambda>r.
            case r of
              Inl early \<Rightarrow> io_return early
            | Inr acc \<Rightarrow>
                let missing = fst acc; wrongType = fst (snd acc); wrongCase = snd (snd acc)
                in if length wrongType > 0 then
                     let detail = joinWith (js '', '')
                           (map (\<lambda>w. fst w @ (js '' (found folder: '') @ snd w @ (js '')'')) wrongType)
                     in io_return \<lparr>passed = False,
                                   message = (js ''A folder exists where a file is required: '') @ detail,
                                   resolvedFile = None\<rparr>
                   else
                     io_bind (if length wrongCase > 0
                              then io_forEach (\<lambda>wc. console_log ((js ''Note: File exists as '') @ quoted (snd wc)
                                     @ (js '' instead of '') @ quoted (fst wc))) wrongCase
                              else io_return ()) (\<lambda>_.
                       if length missing = 0 then
                         io_return \<lparr>passed = True, message = (js ''All files exist''), resolvedFile = None\<rparr>
                       else
                         io_return \<lparr>passed = False,
                                    message = (js ''Missing files: '') @ joinWith (js '', '') missing,
                                    resolvedFile = None\<rparr>)))"

definition validateFileStaged :: "caseMap \<Rightarrow> jstring \<Rightarrow> jstring option \<Rightarrow> ValidationResult io" where
  "validateFileStaged toLowerCase cwd file =
     io_bind (getStagedEntries cwd) (\<lambda>stagedFiles.
       case stagedFiles of
         None \<Rightarrow> io_return \<lparr>passed = False, message = (js ''Failed to check git status''), resolvedFile = None\<rparr>
       | Some staged \<Rightarrow>
           (case file of
              None \<Rightarrow> io_throw typeError_replace
            | Some f \<Rightarrow>
                let target = normalizeGitEntry f
                in if target \<in> set staged then
                     io_return \<lparr>passed = True, message = (js ''File '') @ f @ (js '' is staged''), resolvedFile = None\<rparr>
                   else
                     let u = uniqueCaseInsensitiveMatch toLowerCase staged target
                     in if ambiguous u then
                          io_return \<lparr>passed = False,
                                     message = (js ''Multiple staged files match '') @ quoted f
                                       @ (js '' ignoring case. Keep only one.''),
                                     resolvedFile = None\<rparr>
                        else if truthy (match u) then
                          let m = the (match u)
                          in io_bind (if m \<noteq> target
                                      then console_log ((js ''Note: File staged as '') @ quoted m
                                             @ (js '' instead of '') @ quoted f)
                                      else io_return ()) (\<lambda>_.
                               io_return \<lparr>passed = True,
                                          message = (js ''File '') @ f @ (js '' is staged (as '') @ m @ (js '')''),
                                          resolvedFile = None\<rparr>)
                        else
                          io_return \<lparr>passed = False,
                                     message = (js ''File '') @ f @ (js '' is not staged. Try: git add '') @ f,
                                     resolvedFile = None\<rparr>))"

text \<open>
  The loop of \<open>validateFilesStaged\<close>: the list \<open>unstaged\<close>, or the verdict of its early
  \<open>return\<close>.
\<close>

fun filesStagedLoop :: "caseMap \<Rightarrow> jstring list \<Rightarrow> jstring list \<Rightarrow> jstring list \<Rightarrow> (ValidationResult + jstring list) io" where
  "filesStagedLoop toLowerCase stagedFiles [] unstaged = io_return (Inr unstaged)"
| "filesStagedLoop toLowerCase stagedFiles (f # fs) unstaged =
     (let target = normalizeGitEntry f
      in if target \<in> set stagedFiles then filesStagedLoop toLowerCase stagedFiles fs unstaged
         else
           let u = uniqueCaseInsensitiveMatch toLowerCase stagedFiles target
           in if ambiguous u then
                io_return (Inl \<lparr>passed = False,
                                message = (js ''Multiple staged files match '') @ quoted f
                                  @ (js '' ignoring case. Keep only one.''),
                                resolvedFile = None\<rparr>)
              else if truthy (match u) then
                io_bind (if the (match u) \<noteq> target
                         then console_log ((js ''Note: File staged as '') @ quoted (the (match u))
                                @ (js '' instead of '') @ quoted f)
                         else io_return ()) (\<lambda>_.
                  filesStagedLoop toLowerCase stagedFiles fs unstaged)
              else filesStagedLoop toLowerCase stagedFiles fs (unstaged @ [f]))"

definition validateFilesStaged :: "caseMap \<Rightarrow> jstring \<Rightarrow> jstring list option \<Rightarrow> ValidationResult io" where
  "validateFilesStaged toLowerCase cwd files =
     io_bind (getStagedEntries cwd) (\<lambda>stagedFiles.
       case stagedFiles of
         None \<Rightarrow> io_return \<lparr>passed = False, message = (js ''Failed to check git status''), resolvedFile = None\<rparr>
       | Some staged \<Rightarrow>
           (case files of
              None \<Rightarrow> io_throw typeError_notIterable
            | Some fs \<Rightarrow>
                io_bind (filesStagedLoop toLowerCase staged fs []) (\<lambda>r.
                  case r of
                    Inl early \<Rightarrow> io_return early
                  | Inr unstaged \<Rightarrow>
                      if length unstaged = 0 then
                        io_return \<lparr>passed = True, message = (js ''All files are staged''), resolvedFile = None\<rparr>
                      else
                        io_return \<lparr>passed = False,
                                   message = (js ''Files not staged: '') @ joinWith (js '', '') unstaged,
                                   resolvedFile = None\<rparr>)))"

text \<open>
  \<open>validateFileCommitted\<close> is given in three parts. The first is the block of the source
  function that chooses \<open>commitTarget\<close> from the tracked entries (\<open>let commitTarget =
  resolvedRel; if (tracked) { ... }\<close>): it gives the path for the \<open>git log\<close> lookup, or the
  verdict of the early \<open>return\<close> on an ambiguous match.
\<close>

definition trackedCommitTarget ::
  "caseMap \<Rightarrow> jstring \<Rightarrow> jstring list option \<Rightarrow> jstring \<Rightarrow> ValidationResult + jstring" where
  "trackedCommitTarget toLowerCase f tracked resolvedRel =
     (case tracked of
        None \<Rightarrow> Inr resolvedRel
      | Some tr \<Rightarrow>
          if resolvedRel \<in> set tr then Inr resolvedRel
          else
            let u = uniqueCaseInsensitiveMatch toLowerCase tr resolvedRel
            in if ambiguous u then
                 Inl \<lparr>passed = False,
                      message = (js ''Multiple tracked files match '') @ quoted f
                        @ (js '' ignoring case. Keep only one.''),
                      resolvedFile = None\<rparr>
               else if truthy (match u) then Inr (the (match u))
               else Inr resolvedRel)"

text \<open>
  The second part is the end of the source function, from \<open>const staged = await
  getStagedEntries(cwd)\<close> on: what is reported when \<open>git log\<close> found no commit.
\<close>

definition stagedProgress :: "caseMap \<Rightarrow> jstring \<Rightarrow> jstring \<Rightarrow> jstring \<Rightarrow> jstring \<Rightarrow> ValidationResult io" where
  "stagedProgress toLowerCase cwd f ab commitTarget =
     io_bind (getStagedEntries cwd) (\<lambda>stagedFiles.
       case stagedFiles of
         None \<Rightarrow> io_return \<lparr>passed = False, message = (js ''Failed to check git status''),
                            resolvedFile = None\<rparr>
       | Some staged \<Rightarrow>
           if commitTarget \<in> set staged then
             io_return
               \<lparr>passed = False,
                message = (js ''Progress: file staged. Next: commit it. Run: git commit -m '')
                  @ dquoted ((js ''add '') @ path_basename commitTarget),
                resolvedFile = Some commitTarget\<rparr>
           else
             let su = uniqueCaseInsensitiveMatch toLowerCase staged commitTarget
             in if ambiguous su then
                  io_return
                    \<lparr>passed = False,
                     message = (js ''Multiple staged files match '') @ quoted f
                       @ (js '' ignoring case. Keep only one.''),
                     resolvedFile = None\<rparr>
                else if truthy (match su) then
                  let stagedMatch = the (match su)
                  in io_bind (if stagedMatch \<noteq> commitTarget
                              then console_log ((js ''Note: File staged as '') @ quoted stagedMatch
                                     @ (js '' instead of '') @ quoted commitTarget)
                              else io_return ()) (\<lambda>_.
                       io_return
                         \<lparr>passed = False,
                          message = (js ''Progress: file staged. Next: commit it. Run: git commit -m '')
                            @ dquoted ((js ''add '') @ path_basename stagedMatch),
                          resolvedFile = Some stagedMatch\<rparr>)
                else
                  io_return
                    \<lparr>passed = False,
                     message = (js ''Progress: file created. Next: stage it. Run: git add '') @ ab,
                     resolvedFile = Some commitTarget\<rparr>)"

text \<open>The function itself, with the two parts above in their places.\<close>

definition validateFileCommitted :: "caseMap \<Rightarrow> jstring \<Rightarrow> jstring option \<Rightarrow> ValidationResult io" where
  "validateFileCommitted toLowerCase cwd file =
     (case file of
        None \<Rightarrow> io_throw typeError_replace
      | Some f \<Rightarrow>
          let rel = normalizeRel f;
              abs = path_join cwd rel;
              dirAbs = path_dirname abs;
              expectedBase = path_basename rel
          in io_bind (io_try (getActualFilename toLowerCase dirAbs expectedBase)) (\<lambda>r.
               case r of
                 Inl e \<Rightarrow> io_return \<lparr>passed = False, message = error_message e, resolvedFile = None\<rparr>
               | Inr actualBase \<Rightarrow>
                   if \<not> truthy actualBase then
                     io_bind is_windows (\<lambda>w.
                       let createHint = (if w then (js ''echo hello>'') @ expectedBase
                                         else (js ''echo '') @ dquoted (js ''hello'') @ (js '' > '') @ expectedBase)
                       in io_return
                            \<lparr>passed = False,
                             message = (js ''Progress: create the file '') @ quoted expectedBase
                               @ (js ''. Example: '') @ createHint,
                             resolvedFile = None\<rparr>)
                   else
                     let ab = the actualBase;
                         actualAbs = path_join dirAbs ab
                     in io_bind (stat actualAbs) (\<lambda>st.
                          if \<not> isFile st then
                            io_return
                              \<lparr>passed = False,
                               message = (js ''A folder named '') @ quoted ab @ (js '' exists, but a file named '')
                                 @ quoted expectedBase @ (js '' is required. Do not use mkdir.''),
                               resolvedFile = None\<rparr>
                          else
                            let resolvedRel = normalizeRel (path_join (path_dirname rel) ab)
                            in io_bind (getTrackedEntries cwd) (\<lambda>tracked.
                                 case trackedCommitTarget toLowerCase f tracked resolvedRel of
                                   Inl early \<Rightarrow> io_return early
                                 | Inr commitTarget \<Rightarrow>
                                     io_bind (executeCommand
                                                ((js ''git log --oneline -- '') @ dquoted commitTarget) cwd) (\<lambda>logRes.
                                       if success logRes \<and> trim (stdout logRes) \<noteq> [] then
                                         io_bind (if commitTarget \<noteq> normalizeGitEntry f
                                                  then console_log ((js ''Note: File is tracked as '')
                                                         @ quoted commitTarget @ (js '' instead of '') @ quoted f)
                                                  else io_return ()) (\<lambda>_.
                                           io_return \<lparr>passed = True,
                                                      message = (js ''File '') @ f @ (js '' has been committed''),
                                                      resolvedFile = Some commitTarget\<rparr>)
                                       else stagedProgress toLowerCase cwd f ab commitTarget)))))"

definition validateCommitExists :: "jstring \<Rightarrow> jstring option \<Rightarrow> ValidationResult io" where
  "validateCommitExists cwd msg =
     io_bind (executeCommand (js ''git log --oneline -1'') cwd) (\<lambda>result.
       if \<not> success result \<or> trim (stdout result) = [] then
         io_return \<lparr>passed = False,
                    message = (js ''No commits found. Try: git commit -m '') @ dquoted (js ''message''),
                    resolvedFile = None\<rparr>
       else if truthy msg then
         let commitMessage = trim (joinWith (js '' '') (drop 1 (splitOn (SPACE) (stdout result))))
         in if str_includes commitMessage (the msg) then
              io_return \<lparr>passed = True, message = (js ''Commit created with expected message''),
                         resolvedFile = None\<rparr>
            else
              io_return \<lparr>passed = False,
                         message = (js ''Commit message doesn'') @ [SQUOTE] @ (js ''t match. Expected: '') @ dquoted (the msg),
                         resolvedFile = None\<rparr>
       else io_return \<lparr>passed = True, message = (js ''Commit exists''), resolvedFile = None\<rparr>)"

text \<open>
  In the two branch checks a missing \<open>branch\<close> is compared as \<open>undefined\<close>, which equals no
  string, and printed as \<^verbatim>\<open>undefined\<close>. \<^verbatim>\<open>b.replace('*', '')\<close> removes the first star.
\<close>

definition validateBranchExists :: "jstring \<Rightarrow> jstring option \<Rightarrow> ValidationResult io" where
  "validateBranchExists cwd branch =
     io_bind (executeCommand (js ''git branch'') cwd) (\<lambda>result.
       if \<not> success result then
         io_return \<lparr>passed = False, message = (js ''Failed to list branches''), resolvedFile = None\<rparr>
       else
         let branches = map (\<lambda>b. trim (remove1 (STAR) b)) (splitOn LF (stdout result))
         in if (case branch of None \<Rightarrow> False | Some b \<Rightarrow> b \<in> set branches) then
              io_return \<lparr>passed = True,
                         message = (js ''Branch '') @ js_toString branch @ (js '' exists''),
                         resolvedFile = None\<rparr>
            else
              io_return \<lparr>passed = False,
                         message = (js ''Branch '') @ js_toString branch @ (js '' not found. Try: git branch '')
                           @ js_toString branch,
                         resolvedFile = None\<rparr>)"

definition validateBranchActive :: "jstring \<Rightarrow> jstring option \<Rightarrow> ValidationResult io" where
  "validateBranchActive cwd branch =
     io_bind (executeCommand (js ''git branch --show-current'') cwd) (\<lambda>result.
       if \<not> success result then
         io_return \<lparr>passed = False, message = (js ''Failed to check current branch''), resolvedFile = None\<rparr>
       else
         let currentBranch = trim (stdout result)
         in if Some currentBranch = branch then
              io_return \<lparr>passed = True,
                         message = (js ''On branch '') @ js_toString branch,
                         resolvedFile = None\<rparr>
            else
              io_return \<lparr>passed = False,
                         message = (js ''Not on branch '') @ js_toString branch @ (js ''. Current: '') @ currentBranch
                           @ (js ''. Try: git checkout '') @ js_toString branch,
                         resolvedFile = None\<rparr>)"

text \<open>
  A missing \<open>content\<close> reaches \<^verbatim>\<open>fileContent.includes(content)\<close> as \<open>undefined\<close>, which
  \<open>includes\<close> converts to the text \<^verbatim>\<open>undefined\<close> before searching.
\<close>

definition validateFileContains :: "jstring \<Rightarrow> jstring option \<Rightarrow> jstring option \<Rightarrow> ValidationResult io" where
  "validateFileContains cwd file content =
     io_catch
       (case file of
          None \<Rightarrow> io_throw typeError_replace
        | Some f \<Rightarrow>
            let rel = normalizeRel f;
                filePath = path_join cwd rel
            in io_bind (stat filePath) (\<lambda>st.
                 if \<not> isFile st then
                   io_return \<lparr>passed = False,
                              message = (js ''Expected a file but found a folder: '') @ f,
                              resolvedFile = None\<rparr>
                 else
                   io_bind (readFile filePath) (\<lambda>fileContent.
                     if str_includes fileContent (js_toString content) then
                       io_return \<lparr>passed = True,
                                  message = (js ''File '') @ f @ (js '' contains expected content''),
                                  resolvedFile = None\<rparr>
                     else
                       io_return \<lparr>passed = False,
                                  message = (js ''File '') @ f @ (js '' doesn'') @ [SQUOTE] @ (js ''t contain expected content''),
                                  resolvedFile = None\<rparr>)))
       (\<lambda>_. io_return \<lparr>passed = False,
                        message = (js ''Failed to read '') @ js_toString file,
                        resolvedFile = None\<rparr>)"

text \<open>The dispatcher: the \<open>switch\<close> on the kind, inside the \<open>try\<close> whose \<open>catch\<close> makes a verdict.\<close>

definition validateStep :: "caseMap \<Rightarrow> Validation \<Rightarrow> jstring \<Rightarrow> ValidationResult io" where
  "validateStep toLowerCase validation cwd =
     io_catch
       (if vtype validation = (js ''git-initialized'') then validateGitInitialized cwd
        else if vtype validation = (js ''file-exists'') then validateFileExists toLowerCase cwd (v_file validation)
        else if vtype validation = (js ''files-exist'') then validateFilesExist toLowerCase cwd (v_files validation)
        else if vtype validation = (js ''file-staged'') then validateFileStaged toLowerCase cwd (v_file validation)
        else if vtype validation = (js ''files-staged'') then validateFilesStaged toLowerCase cwd (v_files validation)
        else if vtype validation = (js ''file-committed'') then validateFileCommitted toLowerCase cwd (v_file validation)
        else if vtype validation = (js ''commit-exists'') then validateCommitExists cwd (v_message validation)
        else if vtype validation = (js ''branch-exists'') then validateBranchExists cwd (v_branch validation)
        else if vtype validation = (js ''branch-active'') then validateBranchActive cwd (v_branch validation)
        else if vtype validation = (js ''file-contains'')
          then validateFileContains cwd (v_file validation) (v_content validation)
        else io_return \<lparr>passed = False,
                        message = (js ''Unknown validation type: '') @ vtype validation,
                        resolvedFile = None\<rparr>)
       (\<lambda>err. io_return \<lparr>passed = False,
                          message = (case err of ErrorObj m \<Rightarrow> m | NonError \<Rightarrow> (js ''Validation error'')),
                          resolvedFile = None\<rparr>)"

section \<open>Names for what the helpers compute\<close>

text \<open>The \<open>ExecutionResult\<close> that \<open>executeCommand\<close> makes of an outcome of \<open>execa\<close>.\<close>

definition resultOf :: "execa_outcome \<Rightarrow> ExecutionResult" where
  "resultOf oc =
     (case oc of
        Resolved r \<Rightarrow> \<lparr>success = (x_exitCode r = Some 0), stdout = x_stdout r,
                       stderr = x_stderr r, error = None\<rparr>
      | Rejected x \<Rightarrow> \<lparr>success = False, stdout = [], stderr = [],
                       error = Some (case x of ErrorObj m \<Rightarrow> m | NonError \<Rightarrow> (js ''Unknown error''))\<rparr>)"

text \<open>The entry list read from the output of a git listing command, \<open>None\<close> when it failed.\<close>

definition entriesOf :: "execa_outcome \<Rightarrow> jstring list option" where
  "entriesOf oc =
     (if success (resultOf oc) then Some (parseGitEntries (stdout (resultOf oc))) else None)"

text \<open>
  A plain file name in normal form: one path segment other than \<open>.\<close> and \<open>..\<close>, without
  slash or backslash and without white space at either end.
\<close>

definition plainName :: "jstring \<Rightarrow> bool" where
  "plainName f =
     (f \<noteq> [] \<and> f \<noteq> [DOT] \<and> f \<noteq> [DOT, DOT] \<and> SLASH \<notin> set f \<and> BACKSLASH \<notin> set f
      \<and> \<not> isWhiteSpace (hd f) \<and> \<not> isWhiteSpace (last f))"

text \<open>The value of \<open>try { return m } catch (x) { return f x }\<close>, given how \<open>m\<close> ended.\<close>

fun recover :: "(thrown \<Rightarrow> 'a) \<Rightarrow> thrown + 'a \<Rightarrow> 'a" where
  "recover f (Inl x) = f x"
| "recover f (Inr a) = a"

text \<open>The verdict that the \<open>catch\<close> of \<open>validateStep\<close> makes of what was thrown.\<close>

definition stepHandler :: "thrown \<Rightarrow> ValidationResult" where
  "stepHandler err =
     \<lparr>passed = False,
      message = (case err of ErrorObj m \<Rightarrow> m | NonError \<Rightarrow> (js ''Validation error'')),
      resolvedFile = None\<rparr>"

text \<open>The directory entries equal to a name up to case; none when the directory cannot be read.\<close>

definition caseMatchesIn :: "caseMap \<Rightarrow> env \<Rightarrow> jstring \<Rightarrow> jstring \<Rightarrow> jstring list" where
  "caseMatchesIn toLowerCase e dirPath targetName =
     (case fs_readdir e dirPath of
        Inl x \<Rightarrow> []
      | Inr entries \<Rightarrow> filter (\<lambda>n. toLowerCase n = toLowerCase targetName) entries)"

section \<open>Concrete environments\<close>

text \<open>
  A case mapping for the examples: it maps \<open>A\<close> to \<open>Z\<close> to \<open>a\<close> to \<open>z\<close> and leaves every other
  code unit alone. On strings of ASCII characters, as in the examples, this is what the
  runtime's \<open>toLowerCase\<close> does.
\<close>

definition asciiToLowerCase :: caseMap where
  "asciiToLowerCase s = map (\<lambda>c. if 0x41 \<le> c \<and> c \<le> 0x5A then c + 0x20 else c) s"

text \<open>A result of \<open>execa\<close> for a subprocess that exited with the given code.\<close>

definition exited :: "int \<Rightarrow> jstring \<Rightarrow> execa_outcome" where
  "exited code out = Resolved \<lparr>x_exitCode = Some code, x_stdout = out, x_stderr = [], x_timedOut = False\<rparr>"

definition ENOENT :: thrown where
  "ENOENT = ErrorObj (js ''ENOENT: no such file or directory'')"

text \<open>
  A subprocess that printed a line and then ran into the 20 s limit: \<open>execa\<close> resolves,
  without an exit code, with what was captured.
\<close>

definition env_timeout :: env where
  "env_timeout =
     \<lparr>fs_readdir = (\<lambda>p. Inl ENOENT),
      fs_stat = (\<lambda>p. Inl ENOENT),
      fs_access = (\<lambda>p. Inl ENOENT),
      fs_readFile = (\<lambda>p. Inl ENOENT),
      execa = (\<lambda>c d. Resolved \<lparr>x_exitCode = None, x_stdout = (js ''On branch main''),
                                 x_stderr = [], x_timedOut = True\<rparr>),
      IS_WINDOWS = False\<rparr>"

text \<open>An \<open>execa\<close> call that raises: the shell could not be started.\<close>

definition env_rejects :: env where
  "env_rejects =
     \<lparr>fs_readdir = (\<lambda>p. Inl ENOENT),
      fs_stat = (\<lambda>p. Inl ENOENT),
      fs_access = (\<lambda>p. Inl ENOENT),
      fs_readFile = (\<lambda>p. Inl ENOENT),
      execa = (\<lambda>c d. Rejected (ErrorObj (js ''spawn /bin/sh ENOENT''))),
      IS_WINDOWS = False\<rparr>"

text \<open>
  A working directory \<open>/w\<close> that holds the regular files \<open>names\<close>, each with the text
  \<open>content\<close>, and nothing else; \<open>git ls-files -z\<close>, \<open>git diff --cached --name-only -z\<close> and
  \<open>git log --oneline ...\<close> run as given, every other command prints nothing and exits
  with 0. Paths are compared exactly, as on a case-sensitive filesystem.
\<close>

definition repo_env ::
  "jstring list \<Rightarrow> jstring \<Rightarrow> execa_outcome \<Rightarrow> execa_outcome \<Rightarrow> execa_outcome \<Rightarrow> env" where
  "repo_env names content tracked staged log =
     \<lparr>fs_readdir = (\<lambda>p. if p = (js ''/w'') then Inr names else Inl ENOENT),
      fs_stat = (\<lambda>p. if p = (js ''/w'') then Inr Directory
                     else if p \<in> set (map (\<lambda>n. (js ''/w/'') @ n) names) then Inr RegularFile
                     else Inl ENOENT),
      fs_access = (\<lambda>p. if p = (js ''/w'') \<or> p \<in> set (map (\<lambda>n. (js ''/w/'') @ n) names) then Inr ()
                       else Inl ENOENT),
      fs_readFile = (\<lambda>p. if p \<in> set (map (\<lambda>n. (js ''/w/'') @ n) names) then Inr content
                         else Inl ENOENT),
      execa = (\<lambda>c d. if c = (js ''git ls-files -z'') then tracked
                     else if c = (js ''git diff --cached --name-only -z'') then staged
                     else if take 18 c = (js ''git log --oneline '') then log
                     else exited 0 []),
      IS_WINDOWS = False\<rparr>"

text \<open>
  What a POSIX shell makes of the text between double quotes when no variable is set: a
  dollar sign followed by a name (letters, digits and underscores, not beginning with a
  digit) is replaced by nothing, and every other code unit stays. Command substitution,
  backquotes and backslashes are left out: the examples that use this do not have them.
  The flag tells whether the code units read last belong to the name of a variable.
\<close>

definition isNameStart :: "codeunit \<Rightarrow> bool" where
  "isNameStart c = ((0x41 \<le> c \<and> c \<le> 0x5A) \<or> (0x61 \<le> c \<and> c \<le> 0x7A) \<or> c = 0x5F)"

definition isNameChar :: "codeunit \<Rightarrow> bool" where
  "isNameChar c = (isNameStart c \<or> (0x30 \<le> c \<and> c \<le> 0x39))"

fun expandUnset :: "bool \<Rightarrow> jstring \<Rightarrow> jstring" where
  "expandUnset inName [] = []"
| "expandUnset inName (c # cs) =
     (if inName \<and> isNameChar c then expandUnset True cs
      else if c = DOLLAR \<and> cs \<noteq> [] \<and> isNameStart (hd cs) then expandUnset True cs
      else c # expandUnset False cs)"

text \<open>
  A working directory \<open>/w\<close> in a git repository, with a shell. It holds the regular files
  \<open>names\<close>; the paths \<open>committed\<close> are in the history and unchanged since, the paths
  \<open>staged\<close> have been added to the index and not committed. \<open>git ls-files -z\<close> prints
  the paths of the index, \<open>git diff --cached --name-only -z\<close> the staged ones. A command
  line \<open>git log --oneline -- "<text>"\<close> goes through the shell: git receives the text as
  the shell expands it, and prints a commit if that path is in the history, nothing
  otherwise. Every other command prints nothing and exits with 0.
\<close>

definition git_env :: "jstring list \<Rightarrow> jstring list \<Rightarrow> jstring list \<Rightarrow> env" where
  "git_env names staged committed =
     \<lparr>fs_readdir = (\<lambda>p. if p = js ''/w'' then Inr names else Inl ENOENT),
      fs_stat = (\<lambda>p. if p = js ''/w'' then Inr Directory
                     else if p \<in> set (map (\<lambda>n. js ''/w/'' @ n) names) then Inr RegularFile
                     else Inl ENOENT),
      fs_access = (\<lambda>p. if p = js ''/w'' \<or> p \<in> set (map (\<lambda>n. js ''/w/'' @ n) names) then Inr ()
                       else Inl ENOENT),
      fs_readFile = (\<lambda>p. if p \<in> set (map (\<lambda>n. js ''/w/'' @ n) names) then Inr (js ''hello'')
                         else Inl ENOENT),
      execa = (\<lambda>c d.
         if c = js ''git ls-files -z'' then exited 0 (concat (map (\<lambda>n. n @ [NUL]) (committed @ staged)))
         else if c = js ''git diff --cached --name-only -z''
           then exited 0 (concat (map (\<lambda>n. n @ [NUL]) staged))
         else (let pre = js ''git log --oneline -- '' @ [DQUOTE]
               in if length pre < length c \<and> take (length pre) c = pre \<and> last c = DQUOTE
                  then (if expandUnset False (butlast (drop (length pre) c)) \<in> set committed
                        then exited 0 (js ''1a2b3c4 add file'')
                        else exited 0 [])
                  else exited 0 [])),
      IS_WINDOWS = False\<rparr>"

text \<open>What git answers outside a repository.\<close>

definition not_a_repo :: execa_outcome where
  "not_a_repo = exited 128 []"

text \<open>A check descriptor with no field set; the examples fill in what they need.\<close>

definition v_none :: Validation where
  "v_none = \<lparr>vtype = [], v_file = None, v_files = None, v_branch = None,
              v_message = None, v_content = None\<rparr>"

section \<open>The match reconciler as the specification words it\<close>

text \<open>
  The match outcome of the specification and its reconciler: an exact match if the
  expected path is in the candidate list; otherwise, of the candidates equal to it up
  to case, none is no match, one is a case-insensitive match, several are ambiguous.
\<close>

datatype match_outcome =
    NoMatch
  | ExactMatch jstring
  | CaseInsensitiveMatch jstring
  | Ambiguous "jstring list"

definition reconcile :: "caseMap \<Rightarrow> jstring list \<Rightarrow> jstring \<Rightarrow> match_outcome" where
  "reconcile toLowerCase candidateList expected =
     (if expected \<in> set candidateList then ExactMatch expected
      else (case filter (\<lambda>c. toLowerCase c = toLowerCase expected) candidateList of
              [] \<Rightarrow> NoMatch
            | [h] \<Rightarrow> CaseInsensitiveMatch h
            | h # h' # hs \<Rightarrow> Ambiguous (h # h' # hs)))"

text \<open>
  The path for the git-log lookup: the resolved on-disk path reconciled against the
  tracked entries when they could be read; \<open>None\<close> when that is ambiguous.
\<close>

definition lookupTarget :: "caseMap \<Rightarrow> jstring list option \<Rightarrow> jstring \<Rightarrow> jstring option" where
  "lookupTarget toLowerCase tracked resolved =
     (case tracked of
        None \<Rightarrow> Some resolved
      | Some tr \<Rightarrow>
          (case reconcile toLowerCase tr resolved of
             NoMatch \<Rightarrow> Some resolved
           | ExactMatch p \<Rightarrow> Some p
           | CaseInsensitiveMatch p \<Rightarrow> Some p
           | Ambiguous ps \<Rightarrow> None))"

text \<open>The command line of the git-log lookup for a path.\<close>

definition gitLogFor :: "jstring \<Rightarrow> jstring" where
  "gitLogFor target = (js ''git log --oneline -- '') @ dquoted target"

text \<open>
  What the validator's own \<open>git log\<close> command line for a path answered: whether it
  succeeded and printed something. The validator takes this as "the file has been
  committed"; the command line goes through the shell, so for a path with a character
  that the shell interprets between double quotes it is not a query about that path.
\<close>

definition logAnswered :: "env \<Rightarrow> jstring \<Rightarrow> jstring \<Rightarrow> bool" where
  "logAnswered e cwd target =
     (success (resultOf (execa e (gitLogFor target) cwd))
      \<and> trim (stdout (resultOf (execa e (gitLogFor target) cwd))) \<noteq> [])"

section \<open>Read-only git queries\<close>

text \<open>
  The characters that keep a special meaning between double quotes in a POSIX shell
  command line: the double quote, the dollar sign, the backquote and the backslash.
\<close>

definition shellSpecial :: "codeunit \<Rightarrow> bool" where
  "shellSpecial c = (c \<in> set [DQUOTE, DOLLAR, BACKQUOTE, BACKSLASH])"

text \<open>
  The command lines that only query git: the five fixed ones of the validator, and
  \<open>git log --oneline -- "<path>"\<close> for a path that the shell leaves as it is.
\<close>

definition readOnlyGitQuery :: "jstring \<Rightarrow> bool" where
  "readOnlyGitQuery c =
     (c \<in> set [(js ''git diff --cached --name-only -z''), (js ''git ls-files -z''), (js ''git log --oneline -1''),
                (js ''git branch''), (js ''git branch --show-current'')]
      \<or> (let pre = (js ''git log --oneline -- '') @ [DQUOTE]
          in length pre < length c \<and> take (length pre) c = pre \<and> last c = DQUOTE
             \<and> \<not> list_ex shellSpecial (butlast (drop (length pre) c))))"

text \<open>A call that cannot change the working directory or its git state.\<close>

definition readOnlyCall :: "jstring \<Rightarrow> action \<Rightarrow> bool" where
  "readOnlyCall cwd a =
     (case a of
        Exec c d \<Rightarrow> d = cwd \<and> readOnlyGitQuery c
      | _ \<Rightarrow> True)"

text \<open>
  A call by which the validator inspects the working directory: any of the filesystem
  reads, a line on the console, or one of its git command lines run in that directory.
\<close>

definition inspects :: "jstring \<Rightarrow> action \<Rightarrow> bool" where
  "inspects cwd a =
     (case a of
        Exec c d \<Rightarrow>
          d = cwd
          \<and> (c \<in> set [(js ''git diff --cached --name-only -z''), (js ''git ls-files -z''),
                        (js ''git log --oneline -1''), (js ''git branch''), (js ''git branch --show-current'')]
               \<or> (\<exists>t. c = gitLogFor t))
      | _ \<Rightarrow> True)"

text \<open>Every call that a computation makes in an environment satisfies a predicate.\<close>

definition every_call :: "(action \<Rightarrow> bool) \<Rightarrow> 'a io \<Rightarrow> env \<Rightarrow> bool" where
  "every_call P m e = list_all P (fst (m e))"

text \<open>The kinds the dispatcher knows.\<close>

definition knownKinds :: "jstring list" where
  "knownKinds = [(js ''git-initialized''), (js ''file-exists''), (js ''files-exist''), (js ''file-staged''),
                 (js ''files-staged''), (js ''file-committed''), (js ''commit-exists''), (js ''branch-exists''),
                 (js ''branch-active''), (js ''file-contains'')]"

section \<open>Unfolding the plumbing\<close>

lemmas io_defs = io_return_def io_throw_def io_bind_def io_try_def io_catch_def

lemmas eval_defs = repo_env_def exited_def not_a_repo_def ENOENT_def asciiToLowerCase_def js_def

lemmas prim_defs = readdir_def stat_def access_def readFile_def execa_call_def console_log_def
  is_windows_def

lemmas char_defs = NUL_def LF_def CR_def SPACE_def DQUOTE_def DOLLAR_def SQUOTE_def STAR_def
  DOT_def SLASH_def BACKSLASH_def BACKQUOTE_def

lemma unat_of_char: "unat (of_char c :: 16 word) = of_char c"
proof -
  have "(of_char c :: nat) < 256" by simp
  then have small: "(of_char c :: nat) < 2 ^ LENGTH(16)" by (rule less_trans) simp
  have "word_of_nat (of_char c) = (of_char c :: 16 word)" by (rule of_nat_of_char)
  then show ?thesis using small by (rule of_nat_inverse)
qed

lemma js_eq_iff [simp]: "js a = js b \<longleftrightarrow> a = b"
proof -
  have "inj (of_char :: char \<Rightarrow> codeunit)"
  proof (rule injI)
    fix a b :: char
    assume "(of_char a :: codeunit) = of_char b"
    then have "unat (of_char a :: 16 word) = unat (of_char b :: 16 word)" by simp
    then have "(of_char a :: nat) = of_char b" by (simp only: unat_of_char)
    then show "a = b" by simp
  qed
  then have "inj (map (of_char :: char \<Rightarrow> codeunit))" by (simp only: inj_map)
  then show ?thesis unfolding js_def by (auto dest: injD)
qed

lemma js_eq_Nil [simp]: "js a = [] \<longleftrightarrow> a = []"
  by (simp add: js_def)

lemma js_append: "js a @ js b = js (a @ b)"
  by (simp add: js_def)

lemma js_append_assoc: "js a @ js b @ r = js (a @ b) @ r"
  by (simp add: js_def)

lemmas js_appends = js_append js_append_assoc

lemma js_dot: "js ''.'' = [DOT]"
  by (simp add: js_def DOT_def)

lemma DOT_neq_SLASH: "DOT \<noteq> SLASH"
  by (simp add: DOT_def SLASH_def)

lemma js_dotdot: "js ''..'' = [DOT, DOT]"
  by (simp add: js_def DOT_def)

section \<open>Facts about the normalizer\<close>

lemma trim_idem: "trim (trim s) = trim s"
proof -
  define a where "a = dropWhile isWhiteSpace s"
  define b where "b = dropWhile isWhiteSpace (rev a)"
  have tb: "trim s = rev b" by (simp add: trim_def a_def b_def)
  show ?thesis
  proof (cases "b = []")
    case True
    have e: "trim [] = []" by (simp add: trim_def)
    from True tb have "trim s = []" by simp
    with e show ?thesis by simp
  next
    case False
    then have hb: "\<not> isWhiteSpace (hd b)" unfolding b_def by (rule hd_dropWhile)
    from False have ra: "rev a \<noteq> []" unfolding b_def by auto
    then have ane: "a \<noteq> []" by simp
    then have ha: "\<not> isWhiteSpace (hd a)" unfolding a_def by (rule hd_dropWhile)
    have "last b = last (rev a)" unfolding b_def using False b_def
      by (metis takeWhile_dropWhile_id last_appendR)
    then have lb: "last b = hd a" using ane by (simp add: last_rev)
    have "hd (rev b) = last b" using False by (simp add: hd_rev)
    then have d1: "dropWhile isWhiteSpace (rev b) = rev b" using ha lb False
      by (cases "rev b") auto
    have d2: "dropWhile isWhiteSpace b = b" using hb False by (cases b) auto
    show ?thesis unfolding tb by (simp add: trim_def d1 d2)
  qed
qed

lemma set_trim: "set (trim s) \<subseteq> set s"
  unfolding trim_def by (auto dest!: set_dropWhileD)

lemma set_stripDotSlash: "set (stripDotSlash s) \<subseteq> set s"
  by (induction s rule: stripDotSlash.induct) (auto dest!: set_dropWhileD)

lemma set_normalizeRel: "set (normalizeRel p) \<subseteq> set (replaceBackslashes p)"
  unfolding normalizeRel_def using set_trim set_stripDotSlash by blast

lemma no_backslash_replace: "BACKSLASH \<notin> set (replaceBackslashes p)"
  by (auto simp: replaceBackslashes_def BACKSLASH_def SLASH_def)

lemma replaceBackslashes_id: "BACKSLASH \<notin> set w \<Longrightarrow> replaceBackslashes w = w"
  by (induction w) (auto simp: replaceBackslashes_def)

lemma stripDotSlash_id: "take 2 w \<noteq> [DOT, SLASH] \<Longrightarrow> stripDotSlash w = w"
  by (induction w rule: stripDotSlash.induct) auto

lemma normalizeRel_no_backslash: "BACKSLASH \<notin> set (normalizeRel p)"
  using set_normalizeRel no_backslash_replace by blast

lemma normalizeRel_trimmed: "trim (normalizeRel p) = normalizeRel p"
  by (simp add: normalizeRel_def trim_idem)

lemma normalizeRel_idem_if:
  "take 2 (normalizeRel p) \<noteq> [DOT, SLASH] \<Longrightarrow> normalizeRel (normalizeRel p) = normalizeRel p"
proof -
  assume h: "take 2 (normalizeRel p) \<noteq> [DOT, SLASH]"
  have "normalizeRel (normalizeRel p) = trim (stripDotSlash (normalizeRel p))"
    by (simp add: normalizeRel_def[of "normalizeRel p"] replaceBackslashes_id normalizeRel_no_backslash)
  also have "\<dots> = trim (normalizeRel p)" using h by (simp add: stripDotSlash_id)
  finally show ?thesis by (simp add: normalizeRel_trimmed)
qed

lemma normalizeGitEntry_no_CR: "CR \<notin> set (normalizeGitEntry p)"
proof
  assume "CR \<in> set (normalizeGitEntry p)"
  then have "CR \<in> set (replaceBackslashes (filter (\<lambda>c. c \<noteq> CR) p))"
    unfolding normalizeGitEntry_def using set_normalizeRel by blast
  then show False by (auto simp: replaceBackslashes_def CR_def BACKSLASH_def SLASH_def split: if_splits)
qed

lemma normalizeRel_dot_slash:
  "normalizeRel ([DOT, SLASH] @ y) = trim (dropWhile (\<lambda>c. c = SLASH) (replaceBackslashes y))"
  by (simp add: normalizeRel_def replaceBackslashes_def BACKSLASH_def DOT_def SLASH_def)

lemma trim_decomposition:
  "\<exists>pre post. s = pre @ trim s @ post \<and> list_all isWhiteSpace pre \<and> list_all isWhiteSpace post"
proof -
  define a where "a = dropWhile isWhiteSpace s"
  have s: "s = takeWhile isWhiteSpace s @ a" by (simp add: a_def)
  have "rev (takeWhile isWhiteSpace (rev a) @ dropWhile isWhiteSpace (rev a)) = a"
    by (simp only: takeWhile_dropWhile_id rev_rev_ident)
  then have "rev (dropWhile isWhiteSpace (rev a)) @ rev (takeWhile isWhiteSpace (rev a)) = a"
    by (simp only: rev_append)
  then have a: "a = trim s @ rev (takeWhile isWhiteSpace (rev a))"
    unfolding trim_def a_def by (rule sym)
  have p1: "list_all isWhiteSpace (takeWhile isWhiteSpace s)"
    by (auto simp: list_all_iff dest: set_takeWhileD)
  have p2: "list_all isWhiteSpace (rev (takeWhile isWhiteSpace (rev a)))"
    by (auto simp: list_all_iff dest: set_takeWhileD)
  from s a have "s = takeWhile isWhiteSpace s @ trim s @ rev (takeWhile isWhiteSpace (rev a))"
    by simp
  with p1 p2 show ?thesis by blast
qed

lemma trim_ends:
  assumes "trim s \<noteq> []"
  shows "\<not> isWhiteSpace (hd (trim s))" and "\<not> isWhiteSpace (last (trim s))"
proof -
  define a where "a = dropWhile isWhiteSpace s"
  define b where "b = dropWhile isWhiteSpace (rev a)"
  have tb: "trim s = rev b" by (simp add: trim_def a_def b_def)
  with assms have bne: "b \<noteq> []" by simp
  then have hb: "\<not> isWhiteSpace (hd b)" unfolding b_def by (rule hd_dropWhile)
  from bne have "rev a \<noteq> []" unfolding b_def by auto
  then have ane: "a \<noteq> []" by simp
  then have ha: "\<not> isWhiteSpace (hd a)" unfolding a_def by (rule hd_dropWhile)
  have "last b = last (rev a)" unfolding b_def using bne b_def
    by (metis takeWhile_dropWhile_id last_appendR)
  then have lb: "last b = hd a" using ane by (simp add: last_rev)
  show "\<not> isWhiteSpace (hd (trim s))" using bne ha lb by (simp add: tb hd_rev)
  show "\<not> isWhiteSpace (last (trim s))" using bne hb by (simp add: tb last_rev)
qed

lemma stripDotSlash_code:
  "stripDotSlash s = (if take 2 s = [DOT, SLASH] then dropWhile (\<lambda>c. c = SLASH) (drop 2 s) else s)"
  by (induction s rule: stripDotSlash.induct) auto

lemma length_trim: "length (trim s) \<le> length s"
proof -
  have "length (trim s) \<le> length (dropWhile isWhiteSpace s)"
    unfolding trim_def using length_dropWhile_le [of isWhiteSpace "rev (dropWhile isWhiteSpace s)"]
    by simp
  also have "\<dots> \<le> length s" by (rule length_dropWhile_le)
  finally show ?thesis .
qed

lemma normalizeRel_shorter:
  assumes "take 2 w = [DOT, SLASH]"
  shows "length (normalizeRel w) < length w"
proof -
  from assms obtain r where w: "w = [DOT, SLASH] @ r"
    by (metis append_take_drop_id)
  have "length (normalizeRel w) \<le> length (dropWhile (\<lambda>c. c = SLASH) (replaceBackslashes r))"
    unfolding w normalizeRel_dot_slash by (rule length_trim)
  also have "\<dots> \<le> length (replaceBackslashes r)" by (rule length_dropWhile_le)
  also have "\<dots> = length r" by (simp add: replaceBackslashes_def)
  finally show ?thesis by (simp add: w)
qed

lemma normalizeGitEntry_again: "normalizeGitEntry (normalizeGitEntry x) = normalizeRel (normalizeGitEntry x)"
proof -
  have "filter (\<lambda>c. c \<noteq> CR) (normalizeGitEntry x) = normalizeGitEntry x"
    using normalizeGitEntry_no_CR [of x] by (auto simp: filter_id_conv)
  then show ?thesis by (simp add: normalizeGitEntry_def [of "normalizeGitEntry x"])
qed

section \<open>What the helpers do in an environment\<close>

lemma executeCommand_run:
  "executeCommand c d e = ([Exec c d], Inr (resultOf (execa e c d)))"
  by (cases "execa e c d") (simp_all add: executeCommand_def execa_call_def io_defs resultOf_def)

lemma getStagedEntries_run:
  "getStagedEntries cwd e = ([Exec (js ''git diff --cached --name-only -z'') cwd],
     Inr (entriesOf (execa e (js ''git diff --cached --name-only -z'') cwd)))"
  by (simp add: getStagedEntries_def io_bind_def io_return_def executeCommand_run entriesOf_def)

lemma getTrackedEntries_run:
  "getTrackedEntries cwd e = ([Exec (js ''git ls-files -z'') cwd],
     Inr (entriesOf (execa e (js ''git ls-files -z'') cwd)))"
  by (simp add: getTrackedEntries_def io_bind_def io_return_def executeCommand_run entriesOf_def)

lemma getCaseMatches_run:
  "getCaseMatches lc dir name e = ([Readdir dir], Inr (caseMatchesIn lc e dir name))"
  by (cases "fs_readdir e dir") (simp_all add: getCaseMatches_def io_defs readdir_def caseMatchesIn_def)

lemma getActualFilename_run:
  "getActualFilename lc dir name e = ([Readdir dir],
     (let matches = caseMatchesIn lc e dir name
      in if length matches = 0 then Inr None
         else if length matches = 1 then Inr (Some (hd matches))
         else Inl (ErrorObj ((js ''Multiple entries match '') @ quoted name
              @ (js '' with different casing: '') @ joinWith (js '', '') matches @ (js ''. Keep only one.'')))))"
  by (simp add: getActualFilename_def io_bind_def io_return_def io_throw_def getCaseMatches_run Let_def)

lemma getActualFilename_ambiguous:
  "2 \<le> length (caseMatchesIn lc e dir name) \<Longrightarrow>
   getActualFilename lc dir name e = ([Readdir dir],
     Inl (ErrorObj ((js ''Multiple entries match '') @ quoted name
       @ (js '' with different casing: '') @ joinWith (js '', '') (caseMatchesIn lc e dir name) @ (js ''. Keep only one.''))))"
  by (auto simp: getActualFilename_run Let_def)

lemma getActualFilename_none:
  "caseMatchesIn lc e dir name = [] \<Longrightarrow> getActualFilename lc dir name e = ([Readdir dir], Inr None)"
  by (simp add: getActualFilename_run Let_def)

lemma getActualFilename_one:
  "caseMatchesIn lc e dir name = [m] \<Longrightarrow> getActualFilename lc dir name e = ([Readdir dir], Inr (Some m))"
  by (simp add: getActualFilename_run Let_def)

lemma validateFileExists_ambiguous:
  assumes "2 \<le> length (caseMatchesIn lc e (path_dirname (path_join cwd (normalizeRel f)))
                          (path_basename (normalizeRel f)))"
  shows "outcome (validateFileExists lc cwd (Some f)) e
           = Inr \<lparr>passed = False,
                  message = (js ''Multiple entries match '') @ quoted (path_basename (normalizeRel f))
                    @ (js '' with different casing: '')
                    @ joinWith (js '', '') (caseMatchesIn lc e (path_dirname (path_join cwd (normalizeRel f)))
                          (path_basename (normalizeRel f)))
                    @ (js ''. Keep only one.''),
                  resolvedFile = None\<rparr>"
  using getActualFilename_ambiguous [OF assms]
  by (simp add: outcome_def validateFileExists_def Let_def io_bind_def io_try_def io_return_def
      error_message_def)

lemma validateFileExists_none:
  assumes "caseMatchesIn lc e (path_dirname (path_join cwd (normalizeRel f)))
             (path_basename (normalizeRel f)) = []"
  shows "outcome (validateFileExists lc cwd (Some f)) e
           = Inr \<lparr>passed = False, message = (js ''File '') @ f @ (js '' not found''), resolvedFile = None\<rparr>"
  using getActualFilename_none [OF assms]
  by (simp add: outcome_def validateFileExists_def Let_def io_bind_def io_try_def io_return_def
      truthy_def)

lemma validateFileExists_pass:
  assumes "caseMatchesIn lc e (path_dirname (path_join cwd (normalizeRel f)))
             (path_basename (normalizeRel f)) = [m]"
    and "m \<noteq> []"
    and "fs_stat e (path_join (path_dirname (path_join cwd (normalizeRel f))) m) = Inr RegularFile"
  shows "outcome (validateFileExists lc cwd (Some f)) e
           = Inr \<lparr>passed = True, message = (js ''File '') @ f @ (js '' exists (as '') @ m @ (js '')''),
                  resolvedFile = Some (normalizeRel (path_join (path_dirname (normalizeRel f)) m))\<rparr>"
  using getActualFilename_one [OF assms(1)] assms(2,3)
  by (simp add: outcome_def validateFileExists_def Let_def io_bind_def io_try_def io_return_def
      truthy_def stat_def isFile_def console_log_def)

section \<open>Case variants of plain file names\<close>

lemma dropWhile_hd: "xs \<noteq> [] \<Longrightarrow> \<not> P (hd xs) \<Longrightarrow> dropWhile P xs = xs"
  by (cases xs) auto

lemma trim_plain:
  assumes "s \<noteq> []" "\<not> isWhiteSpace (hd s)" "\<not> isWhiteSpace (last s)"
  shows "trim s = s"
proof -
  have a: "dropWhile isWhiteSpace s = s" using assms by (simp add: dropWhile_hd)
  have "hd (rev s) = last s" using assms(1) by (simp add: hd_rev)
  then have b: "dropWhile isWhiteSpace (rev s) = rev s" using assms by (simp add: dropWhile_hd)
  show ?thesis by (simp add: trim_def a b)
qed

lemma normalizeRel_plain: "plainName f \<Longrightarrow> normalizeRel f = f"
proof -
  assume p: "plainName f"
  then have r: "replaceBackslashes f = f" by (simp add: replaceBackslashes_id plainName_def)
  from p have "take 2 f \<noteq> [DOT, SLASH]" by (cases f; cases "tl f") (auto simp: plainName_def)
  then have s: "stripDotSlash f = f" by (rule stripDotSlash_id)
  from p show ?thesis by (simp add: normalizeRel_def r s trim_plain plainName_def)
qed

lemma splitOn_no_sep: "c \<notin> set s \<Longrightarrow> splitOn c s = [s]"
  by (induction s) auto

lemma path_basename_plain: "plainName f \<Longrightarrow> path_basename f = f"
proof -
  assume p: "plainName f"
  then have "\<forall>c \<in> set (rev f). c \<noteq> SLASH" by (auto simp: plainName_def)
  then have t: "takeWhile (\<lambda>c. c \<noteq> SLASH) (rev f) = rev f" by (simp add: takeWhile_eq_all_conv)
  from p have "hd (rev f) \<noteq> SLASH" by (cases "rev f") (auto simp: plainName_def)
  with p have d: "dropWhile (\<lambda>c. c = SLASH) (rev f) = rev f"
    by (cases "rev f") (auto simp: plainName_def)
  show ?thesis by (simp add: path_basename_def d t)
qed

lemma path_dirname_plain: "plainName f \<Longrightarrow> path_dirname f = (js ''.'')"
proof -
  assume p: "plainName f"
  then have ne: "f \<noteq> []" and ns: "SLASH \<notin> set f" by (simp_all add: plainName_def)
  then obtain x xs where f: "f = x # xs" and x: "x \<noteq> SLASH" and xs: "SLASH \<notin> set xs"
    by (cases f) auto
  from xs have "\<forall>c \<in> set (dropWhile (\<lambda>c. c = SLASH) (rev xs)). c \<noteq> SLASH"
    by (auto dest!: set_dropWhileD)
  then have sc: "dropWhile (\<lambda>c. c \<noteq> SLASH) (dropWhile (\<lambda>c. c = SLASH) (rev xs)) = []"
    by (simp only: dropWhile_eq_Nil_conv)
  show ?thesis unfolding f path_dirname_def by (simp add: sc x)
qed

lemma path_join_dot_plain: "plainName f \<Longrightarrow> path_join (js ''.'') f = f"
proof -
  assume p: "plainName f"
  then have ne: "f \<noteq> []" and ns: "SLASH \<notin> set f" and d1: "f \<noteq> (js ''.'')" and d2: "f \<noteq> (js ''..'')"
    by (simp_all add: plainName_def js_dot js_dotdot)
  from ns have s: "splitOn (SLASH) f = [f]" by (rule splitOn_no_sep)
  from ne ns have l: "last f \<noteq> SLASH" by (metis last_in_set)
  have sp: "splitOn (SLASH) ([DOT, SLASH] @ f) = [(js ''.''), f]"
    by (simp add: s js_dot DOT_neq_SLASH)
  have seg: "normalizeSegments True [] [(js ''.''), f] = [f]" using ne d1 d2 by simp
  have n: "path_normalize ([DOT, SLASH] @ f) = f"
    unfolding path_normalize_def sp using ne l d1 d2 by (simp add: seg DOT_neq_SLASH)
  have j: "js ''.'' @ js ''/'' @ f = [DOT, SLASH] @ f" by (simp add: js_def DOT_def SLASH_def)
  show ?thesis using ne n by (simp add: path_join_def j)
qed

section \<open>The dispatcher and the staged check\<close>

lemma io_catch_Inr: "snd (m e) = Inr r \<Longrightarrow> snd (io_catch m h e) = Inr r"
  by (cases "m e") (simp add: io_catch_def io_bind_def io_try_def io_return_def)

lemma validateStep_file_staged:
  "vtype v = (js ''file-staged'') \<Longrightarrow> outcome (validateFileStaged lc cwd (v_file v)) e = Inr r \<Longrightarrow>
   outcome (validateStep lc v cwd) e = Inr r"
  unfolding outcome_def validateStep_def by (simp add: io_catch_Inr)

lemma validateFileStaged_variant:
  assumes st: "outcome (getStagedEntries cwd) e = Inr (Some staged)"
    and nin: "normalizeGitEntry f \<notin> set staged"
  shows "outcome (validateFileStaged lc cwd (Some f)) e =
     Inr (let u = uniqueCaseInsensitiveMatch lc staged (normalizeGitEntry f)
          in if ambiguous u then
               \<lparr>passed = False,
                message = (js ''Multiple staged files match '') @ quoted f @ (js '' ignoring case. Keep only one.''),
                resolvedFile = None\<rparr>
             else if truthy (match u) then
               \<lparr>passed = True,
                message = (js ''File '') @ f @ (js '' is staged (as '') @ the (match u) @ (js '')''),
                resolvedFile = None\<rparr>
             else
               \<lparr>passed = False,
                message = (js ''File '') @ f @ (js '' is not staged. Try: git add '') @ f,
                resolvedFile = None\<rparr>)"
proof -
  from st have g: "getStagedEntries cwd e = ([Exec (js ''git diff --cached --name-only -z'') cwd], Inr (Some staged))"
    by (simp add: outcome_def getStagedEntries_run)
  show ?thesis
    using g nin
    by (simp add: outcome_def validateFileStaged_def io_bind_def io_return_def console_log_def Let_def)
qed

section \<open>The dispatcher on descriptors with a missing field\<close>

lemma io_catch_run:
  "io_catch m (\<lambda>x. io_return (f x)) e = (fst (m e), Inr (recover f (snd (m e))))"
  by (cases "m e"; cases "snd (m e)") (simp_all add: io_catch_def io_bind_def io_try_def io_return_def)

lemma passed_stepHandler: "\<not> passed (stepHandler x)"
  by (simp add: stepHandler_def)

lemma validateStep_run:
  "outcome (validateStep lc v cwd) e =
     Inr (recover stepHandler (snd ((if vtype v = (js ''git-initialized'') then validateGitInitialized cwd
        else if vtype v = (js ''file-exists'') then validateFileExists lc cwd (v_file v)
        else if vtype v = (js ''files-exist'') then validateFilesExist lc cwd (v_files v)
        else if vtype v = (js ''file-staged'') then validateFileStaged lc cwd (v_file v)
        else if vtype v = (js ''files-staged'') then validateFilesStaged lc cwd (v_files v)
        else if vtype v = (js ''file-committed'') then validateFileCommitted lc cwd (v_file v)
        else if vtype v = (js ''commit-exists'') then validateCommitExists cwd (v_message v)
        else if vtype v = (js ''branch-exists'') then validateBranchExists cwd (v_branch v)
        else if vtype v = (js ''branch-active'') then validateBranchActive cwd (v_branch v)
        else if vtype v = (js ''file-contains'')
          then validateFileContains cwd (v_file v) (v_content v)
        else io_return \<lparr>passed = False,
                        message = (js ''Unknown validation type: '') @ vtype v,
                        resolvedFile = None\<rparr>) e)))"
  by (simp add: outcome_def validateStep_def io_catch_run stepHandler_def [abs_def])

lemma failed_file_exists: "\<not> passed (recover stepHandler (snd (validateFileExists lc cwd None e)))"
  by (simp add: validateFileExists_def io_throw_def passed_stepHandler)

lemma failed_file_committed: "\<not> passed (recover stepHandler (snd (validateFileCommitted lc cwd None e)))"
  by (simp add: validateFileCommitted_def io_throw_def passed_stepHandler)

lemma failed_files_exist: "\<not> passed (recover stepHandler (snd (validateFilesExist lc cwd None e)))"
  by (simp add: validateFilesExist_def io_throw_def passed_stepHandler)

lemma failed_file_staged: "\<not> passed (recover stepHandler (snd (validateFileStaged lc cwd None e)))"
  by (cases "entriesOf (execa e (js ''git diff --cached --name-only -z'') cwd)")
     (simp_all add: validateFileStaged_def io_bind_def io_return_def io_throw_def getStagedEntries_run passed_stepHandler)

lemma failed_files_staged: "\<not> passed (recover stepHandler (snd (validateFilesStaged lc cwd None e)))"
  by (cases "entriesOf (execa e (js ''git diff --cached --name-only -z'') cwd)")
     (simp_all add: validateFilesStaged_def io_bind_def io_return_def io_throw_def getStagedEntries_run passed_stepHandler)

lemma failed_file_contains: "\<not> passed (recover stepHandler (snd (validateFileContains cwd None c e)))"
  by (simp add: validateFileContains_def io_catch_run io_throw_def)

lemma failed_branch_exists: "\<not> passed (recover stepHandler (snd (validateBranchExists cwd None e)))"
  by (simp add: validateBranchExists_def io_bind_def io_return_def executeCommand_run Let_def)

lemma failed_branch_active: "\<not> passed (recover stepHandler (snd (validateBranchActive cwd None e)))"
  by (simp add: validateBranchActive_def io_bind_def io_return_def executeCommand_run Let_def)

text \<open>
  For every check descriptor, \<open>validateStep\<close> returns a verdict and never raises. A kind
  that the dispatcher does not know gives a failed verdict that names the kind. A
  descriptor of a known kind without its \<open>file\<close>, \<open>files\<close> or \<open>branch\<close> field gives a failed
  verdict. Nothing of the kind holds for a missing \<open>content\<close>.
\<close>

lemma validateStep_returns:
  "\<exists>r. outcome (validateStep lc v cwd) e = Inr r
     \<and> (vtype v \<notin> set knownKinds \<longrightarrow>
          r = \<lparr>passed = False, message = (js ''Unknown validation type: '') @ vtype v, resolvedFile = None\<rparr>)
     \<and> (vtype v \<in> set [(js ''file-exists''), (js ''file-staged''), (js ''file-committed''), (js ''file-contains'')]
          \<and> v_file v = None \<longrightarrow> \<not> passed r)
     \<and> (vtype v \<in> set [(js ''files-exist''), (js ''files-staged'')] \<and> v_files v = None \<longrightarrow> \<not> passed r)
     \<and> (vtype v \<in> set [(js ''branch-exists''), (js ''branch-active'')] \<and> v_branch v = None \<longrightarrow> \<not> passed r)"
proof -
  obtain r where r: "outcome (validateStep lc v cwd) e = Inr r"
    by (simp add: validateStep_run)
  have unknown: "r = \<lparr>passed = False, message = (js ''Unknown validation type: '') @ vtype v, resolvedFile = None\<rparr>"
    if "vtype v \<notin> set knownKinds"
    using that r by (simp add: validateStep_run knownKinds_def io_return_def)
  have nofile: "\<not> passed r"
    if "vtype v \<in> set [(js ''file-exists''), (js ''file-staged''), (js ''file-committed''), (js ''file-contains'')] \<and> v_file v = None"
    using that r failed_file_exists [of lc cwd e] failed_file_staged [of lc cwd e]
      failed_file_committed [of lc cwd e] failed_file_contains [of cwd "v_content v" e]
    by (auto simp: validateStep_run)
  have nofiles: "\<not> passed r"
    if "vtype v \<in> set [(js ''files-exist''), (js ''files-staged'')] \<and> v_files v = None"
    using that r failed_files_exist [of lc cwd e] failed_files_staged [of lc cwd e]
    by (auto simp: validateStep_run)
  have nobranch: "\<not> passed r"
    if "vtype v \<in> set [(js ''branch-exists''), (js ''branch-active'')] \<and> v_branch v = None"
    using that r failed_branch_exists [of cwd e] failed_branch_active [of cwd e]
    by (auto simp: validateStep_run)
  from r unknown nofile nofiles nobranch show ?thesis by blast
qed

section \<open>The file-committed check on a file that is on disk\<close>

lemma parseGitEntries_nonempty: "[] \<notin> set (parseGitEntries out)"
  by (simp add: parseGitEntries_def)

lemma entriesOf_nonempty: "entriesOf oc = Some l \<Longrightarrow> [] \<notin> set l"
  using parseGitEntries_nonempty by (auto simp: entriesOf_def split: if_splits)

lemma reconcile_code:
  assumes "t \<notin> set l" "[] \<notin> set l"
  shows "reconcile lc l t =
     (let u = uniqueCaseInsensitiveMatch lc l t
      in if ambiguous u then Ambiguous (filter (\<lambda>c. lc c = lc t) l)
         else if truthy (match u) then CaseInsensitiveMatch (the (match u))
         else NoMatch)"
proof (cases "filter (\<lambda>c. lc c = lc t) l")
  case Nil
  with assms show ?thesis by (simp add: reconcile_def uniqueCaseInsensitiveMatch_def truthy_def)
next
  case (Cons h hs)
  then have "h \<in> set (filter (\<lambda>c. lc c = lc t) l)" by simp
  then have "h \<in> set l" by simp
  with assms(2) have hne: "h \<noteq> []" by auto
  show ?thesis
  proof (cases hs)
    case Nil
    with Cons assms(1) hne show ?thesis
      by (simp add: reconcile_def uniqueCaseInsensitiveMatch_def truthy_def)
  next
    case (Cons h' hs')
    with \<open>filter (\<lambda>c. lc c = lc t) l = h # hs\<close> assms(1) show ?thesis
      by (simp add: reconcile_def uniqueCaseInsensitiveMatch_def truthy_def)
  qed
qed

lemma trackedCommitTarget_lookup:
  assumes "\<And>tr. tracked = Some tr \<Longrightarrow> [] \<notin> set tr"
  shows "trackedCommitTarget lc f tracked resolved =
     (case lookupTarget lc tracked resolved of
        None \<Rightarrow> Inl \<lparr>passed = False,
                     message = (js ''Multiple tracked files match '') @ quoted f
                       @ (js '' ignoring case. Keep only one.''),
                     resolvedFile = None\<rparr>
      | Some t \<Rightarrow> Inr t)"
proof (cases tracked)
  case None
  then show ?thesis by (simp add: trackedCommitTarget_def lookupTarget_def)
next
  case (Some tr)
  with assms have ne: "[] \<notin> set tr" by simp
  show ?thesis
  proof (cases "resolved \<in> set tr")
    case True
    with Some show ?thesis by (simp add: trackedCommitTarget_def lookupTarget_def reconcile_def)
  next
    case False
    from reconcile_code [OF False ne] Some False show ?thesis
      by (simp add: trackedCommitTarget_def lookupTarget_def Let_def)
  qed
qed

lemma stagedProgress_unread:
  "entriesOf (execa e (js ''git diff --cached --name-only -z'') cwd) = None \<Longrightarrow>
   outcome (stagedProgress lc cwd f ab target) e
     = Inr \<lparr>passed = False, message = (js ''Failed to check git status''), resolvedFile = None\<rparr>"
  by (simp add: outcome_def stagedProgress_def io_bind_def io_return_def getStagedEntries_run)

lemma stagedProgress_read:
  assumes "entriesOf (execa e (js ''git diff --cached --name-only -z'') cwd) = Some st"
  shows "outcome (stagedProgress lc cwd f ab target) e =
     Inr (case reconcile lc st target of
            ExactMatch p \<Rightarrow>
              \<lparr>passed = False,
               message = (js ''Progress: file staged. Next: commit it. Run: git commit -m '')
                 @ dquoted ((js ''add '') @ path_basename p),
               resolvedFile = Some p\<rparr>
          | CaseInsensitiveMatch m \<Rightarrow>
              \<lparr>passed = False,
               message = (js ''Progress: file staged. Next: commit it. Run: git commit -m '')
                 @ dquoted ((js ''add '') @ path_basename m),
               resolvedFile = Some m\<rparr>
          | NoMatch \<Rightarrow>
              \<lparr>passed = False,
               message = (js ''Progress: file created. Next: stage it. Run: git add '') @ ab,
               resolvedFile = Some target\<rparr>
          | Ambiguous ms \<Rightarrow>
              \<lparr>passed = False,
               message = (js ''Multiple staged files match '') @ quoted f @ (js '' ignoring case. Keep only one.''),
               resolvedFile = None\<rparr>)"
proof (cases "target \<in> set st")
  case True
  with assms show ?thesis
    by (simp add: outcome_def stagedProgress_def io_bind_def io_return_def getStagedEntries_run
        reconcile_def)
next
  case False
  from entriesOf_nonempty [OF assms] have ne: "[] \<notin> set st" .
  from reconcile_code [OF False ne] assms False show ?thesis
    by (simp add: outcome_def stagedProgress_def io_bind_def io_return_def getStagedEntries_run
        console_log_def Let_def)
qed

lemma validateFileCommitted_on_disk:
  assumes disk: "caseMatchesIn lc e (path_dirname (path_join cwd (normalizeRel f)))
                   (path_basename (normalizeRel f)) = [actual]"
    and named: "actual \<noteq> []"
    and regular: "fs_stat e (path_join (path_dirname (path_join cwd (normalizeRel f))) actual)
                    = Inr RegularFile"
  shows "validateFileCommitted lc cwd (Some f) e =
     (let dir = path_dirname (path_join cwd (normalizeRel f));
          pre = [Readdir dir, Stat (path_join dir actual), Exec (js ''git ls-files -z'') cwd]
      in case lookupTarget lc (entriesOf (execa e (js ''git ls-files -z'') cwd))
                (normalizeRel (path_join (path_dirname (normalizeRel f)) actual)) of
           None \<Rightarrow> (pre, Inr \<lparr>passed = False,
                                message = (js ''Multiple tracked files match '') @ quoted f
                                  @ (js '' ignoring case. Keep only one.''),
                                resolvedFile = None\<rparr>)
         | Some target \<Rightarrow>
             if logAnswered e cwd target then
               (pre @ [Exec (gitLogFor target) cwd]
                  @ (if target \<noteq> normalizeGitEntry f
                     then [ConsoleLog ((js ''Note: File is tracked as '') @ quoted target
                             @ (js '' instead of '') @ quoted f)]
                     else []),
                Inr \<lparr>passed = True, message = (js ''File '') @ f @ (js '' has been committed''),
                       resolvedFile = Some target\<rparr>)
             else
               (pre @ [Exec (gitLogFor target) cwd] @ fst (stagedProgress lc cwd f actual target e),
                snd (stagedProgress lc cwd f actual target e)))"
proof -
  have tr: "trackedCommitTarget lc f (entriesOf (execa e (js ''git ls-files -z'') cwd)) r =
     (case lookupTarget lc (entriesOf (execa e (js ''git ls-files -z'') cwd)) r of
        None \<Rightarrow> Inl \<lparr>passed = False,
                     message = (js ''Multiple tracked files match '') @ quoted f
                       @ (js '' ignoring case. Keep only one.''),
                     resolvedFile = None\<rparr>
      | Some t \<Rightarrow> Inr t)" for r
    by (rule trackedCommitTarget_lookup) (rule entriesOf_nonempty)
  show ?thesis
  proof (cases "lookupTarget lc (entriesOf (execa e (js ''git ls-files -z'') cwd))
                (normalizeRel (path_join (path_dirname (normalizeRel f)) actual))")
    case None
    with getActualFilename_one [OF disk] named regular show ?thesis
      by (simp add: validateFileCommitted_def Let_def io_bind_def io_try_def io_return_def
          truthy_def stat_def isFile_def getTrackedEntries_run tr)
  next
    case (Some target)
    define L where "L = resultOf (execa e (gitLogFor target) cwd)"
    have ig: "logAnswered e cwd target = (success L \<and> trim (stdout L) \<noteq> [])"
      by (simp add: logAnswered_def L_def)
    consider (found) "success L" "trim (stdout L) \<noteq> []"
      | (failed) "\<not> success L"
      | (empty) "success L" "trim (stdout L) = []"
      by blast
    then show ?thesis
    proof cases
      case found
      with ig have "logAnswered e cwd target" by simp
      with Some getActualFilename_one [OF disk] named regular found [unfolded L_def gitLogFor_def]
      show ?thesis
        by (simp add: validateFileCommitted_def Let_def io_bind_def io_try_def io_return_def
            truthy_def stat_def isFile_def getTrackedEntries_run tr executeCommand_run
            gitLogFor_def console_log_def)
    next
      case failed
      with ig have "\<not> logAnswered e cwd target" by simp
      with Some getActualFilename_one [OF disk] named regular failed [unfolded L_def gitLogFor_def]
      show ?thesis
        by (simp add: validateFileCommitted_def Let_def io_bind_def io_try_def io_return_def
            truthy_def stat_def isFile_def getTrackedEntries_run tr executeCommand_run
            gitLogFor_def split: prod.splits)
    next
      case empty
      with ig have "\<not> logAnswered e cwd target" by simp
      with Some getActualFilename_one [OF disk] named regular empty [unfolded L_def gitLogFor_def]
      show ?thesis
        by (simp add: validateFileCommitted_def Let_def io_bind_def io_try_def io_return_def
            truthy_def stat_def isFile_def getTrackedEntries_run tr executeCommand_run
            gitLogFor_def split: prod.splits)
    qed
  qed
qed

text \<open>
  The file is on disk: the directory has exactly one entry equal to the expected name up
  to case, and it is a regular file. The path for the git-log lookup is the on-disk path
  reconciled against the tracked entries, not the staged ones. If that reconciliation is
  ambiguous, the check fails with the ambiguity message, and no \<open>git log\<close> is run.
  Otherwise the \<open>git log\<close> command line for the reconciled path is run: if it prints
  something the check passes; if not, the check fails, with the "commit it" message when
  the path reconciles against the staged entries (exactly or up to case), and with the
  "stage it" message when no staged entry matches.
\<close>

lemma validateFileCommitted_stages:
  assumes rel: "rel = normalizeRel f"
    and dir: "dir = path_dirname (path_join cwd rel)"
    and disk: "caseMatchesIn lc e dir (path_basename rel) = [actual]"
    and named: "actual \<noteq> []"
    and regular: "fs_stat e (path_join dir actual) = Inr RegularFile"
    and resolved: "resolved = normalizeRel (path_join (path_dirname rel) actual)"
    and tracked: "tracked = entriesOf (execa e (js ''git ls-files -z'') cwd)"
    and staged: "staged = entriesOf (execa e (js ''git diff --cached --name-only -z'') cwd)"
  shows "(lookupTarget lc tracked resolved = None \<longrightarrow>
            outcome (validateFileCommitted lc cwd (Some f)) e
              = Inr \<lparr>passed = False,
                     message = (js ''Multiple tracked files match '') @ quoted f
                       @ (js '' ignoring case. Keep only one.''),
                     resolvedFile = None\<rparr>
            \<and> calls (validateFileCommitted lc cwd (Some f)) e
              = [Readdir dir, Stat (path_join dir actual), Exec (js ''git ls-files -z'') cwd])
       \<and> (\<forall>target. lookupTarget lc tracked resolved = Some target \<longrightarrow>
            Exec (gitLogFor target) cwd \<in> set (calls (validateFileCommitted lc cwd (Some f)) e)
            \<and> (logAnswered e cwd target \<longrightarrow>
                 outcome (validateFileCommitted lc cwd (Some f)) e
                   = Inr \<lparr>passed = True, message = (js ''File '') @ f @ (js '' has been committed''),
                          resolvedFile = Some target\<rparr>)
            \<and> (\<forall>st. \<not> logAnswered e cwd target \<and> staged = Some st \<longrightarrow>
                 outcome (validateFileCommitted lc cwd (Some f)) e
                   = Inr (case reconcile lc st target of
                            ExactMatch p \<Rightarrow>
                              \<lparr>passed = False,
                               message = (js ''Progress: file staged. Next: commit it. Run: git commit -m '')
                                 @ dquoted ((js ''add '') @ path_basename p),
                               resolvedFile = Some p\<rparr>
                          | CaseInsensitiveMatch m \<Rightarrow>
                              \<lparr>passed = False,
                               message = (js ''Progress: file staged. Next: commit it. Run: git commit -m '')
                                 @ dquoted ((js ''add '') @ path_basename m),
                               resolvedFile = Some m\<rparr>
                          | NoMatch \<Rightarrow>
                              \<lparr>passed = False,
                               message = (js ''Progress: file created. Next: stage it. Run: git add '') @ actual,
                               resolvedFile = Some target\<rparr>
                          | Ambiguous ms \<Rightarrow>
                              \<lparr>passed = False,
                               message = (js ''Multiple staged files match '') @ quoted f
                                 @ (js '' ignoring case. Keep only one.''),
                               resolvedFile = None\<rparr>)))"
proof -
  note run = validateFileCommitted_on_disk [OF disk [unfolded dir rel] named regular [unfolded dir rel],
      folded rel, folded dir, folded resolved, folded tracked]
  have amb: "outcome (validateFileCommitted lc cwd (Some f)) e
              = Inr \<lparr>passed = False,
                     message = (js ''Multiple tracked files match '') @ quoted f
                       @ (js '' ignoring case. Keep only one.''),
                     resolvedFile = None\<rparr>
            \<and> calls (validateFileCommitted lc cwd (Some f)) e
              = [Readdir dir, Stat (path_join dir actual), Exec (js ''git ls-files -z'') cwd]"
    if "lookupTarget lc tracked resolved = None"
    using that by (simp add: outcome_def calls_def run Let_def)
  have look: "Exec (gitLogFor target) cwd \<in> set (calls (validateFileCommitted lc cwd (Some f)) e)"
    if "lookupTarget lc tracked resolved = Some target" for target
    using that by (simp add: calls_def run Let_def)
  have com: "outcome (validateFileCommitted lc cwd (Some f)) e
                   = Inr \<lparr>passed = True, message = (js ''File '') @ f @ (js '' has been committed''),
                          resolvedFile = Some target\<rparr>"
    if "lookupTarget lc tracked resolved = Some target" "logAnswered e cwd target" for target
    using that by (simp add: outcome_def run Let_def)
  have prog: "outcome (validateFileCommitted lc cwd (Some f)) e
       = outcome (stagedProgress lc cwd f actual target) e"
    if "lookupTarget lc tracked resolved = Some target" "\<not> logAnswered e cwd target" for target
    using that by (simp add: outcome_def run Let_def)
  show ?thesis
    using amb look com prog stagedProgress_read [of e cwd _ lc f actual] staged
    by (metis (no_types, lifting))
qed

section \<open>The git-initialized check in any environment\<close>

lemma validateGitInitialized_outcome:
  "outcome (validateGitInitialized cwd) e =
     Inr (case fs_access e (path_join cwd (js ''.git'')) of
            Inr u \<Rightarrow> \<lparr>passed = True, message = (js ''Git repository initialized successfully''),
                        resolvedFile = None\<rparr>
          | Inl x \<Rightarrow> \<lparr>passed = False, message = (js ''Git repository not found. Try: git init''),
                        resolvedFile = None\<rparr>)"
  by (cases "fs_access e (path_join cwd (js ''.git''))")
     (simp_all add: outcome_def validateGitInitialized_def Let_def io_defs access_def)

section \<open>The calls of an evaluation\<close>

text \<open>
  Whatever the descriptor and the environment, every call of \<open>validateStep\<close> is a
  filesystem read, a console line or one of the validator's git command lines, run in
  the working directory. The calls are read-only provided that every path put into a
  \<open>git log\<close> command line is free of the characters that the shell interprets between
  double quotes.
\<close>

lemma every_call_return: "every_call P (io_return a) e"
  by (simp add: every_call_def io_return_def)

lemma every_call_throw: "every_call P (io_throw x) e"
  by (simp add: every_call_def io_throw_def)

lemma every_call_bind:
  assumes "every_call P m e" and "\<And>a. every_call P (k a) e"
  shows "every_call P (io_bind m k) e"
proof (cases "m e")
  case (Pair t r)
  with assms(1) have t: "list_all P t" by (simp add: every_call_def)
  show ?thesis
  proof (cases r)
    case (Inl x)
    with Pair t show ?thesis by (simp add: every_call_def io_bind_def)
  next
    case (Inr a)
    from assms(2) [of a] have "list_all P (fst (k a e))" by (simp add: every_call_def)
    with Pair Inr t show ?thesis
      by (cases "k a e") (simp add: every_call_def io_bind_def)
  qed
qed

lemma every_call_try: "every_call P m e \<Longrightarrow> every_call P (io_try m) e"
  by (cases "m e") (simp add: every_call_def io_try_def)

lemma every_call_if:
  "(c \<Longrightarrow> every_call P a e) \<Longrightarrow> (\<not> c \<Longrightarrow> every_call P b e) \<Longrightarrow>
   every_call P (if c then a else b) e"
  by simp

lemma every_call_case_option:
  "(x = None \<Longrightarrow> every_call P a e) \<Longrightarrow> (\<And>y. x = Some y \<Longrightarrow> every_call P (b y) e) \<Longrightarrow>
   every_call P (case x of None \<Rightarrow> a | Some y \<Rightarrow> b y) e"
  by (cases x) simp_all

lemma every_call_case_sum:
  "(\<And>y. x = Inl y \<Longrightarrow> every_call P (a y) e) \<Longrightarrow> (\<And>y. x = Inr y \<Longrightarrow> every_call P (b y) e) \<Longrightarrow>
   every_call P (case x of Inl y \<Rightarrow> a y | Inr y \<Rightarrow> b y) e"
  by (cases x) simp_all

lemma every_call_catch:
  "every_call P m e \<Longrightarrow> (\<And>x. every_call P (h x) e) \<Longrightarrow> every_call P (io_catch m h) e"
  unfolding io_catch_def
  by (intro every_call_bind every_call_try every_call_case_sum every_call_return)

lemma every_call_prims:
  "every_call (inspects cwd) (readdir p) e"
  "every_call (inspects cwd) (stat p) e"
  "every_call (inspects cwd) (access p) e"
  "every_call (inspects cwd) (readFile p) e"
  "every_call (inspects cwd) (console_log s) e"
  "every_call (inspects cwd) is_windows e"
  by (simp_all add: every_call_def inspects_def prim_defs)

lemma every_call_executeCommand:
  "inspects cwd (Exec c cwd) \<Longrightarrow> every_call (inspects cwd) (executeCommand c cwd) e"
  by (simp add: every_call_def executeCommand_run)

lemma inspects_commands:
  "inspects cwd (Exec (js ''git diff --cached --name-only -z'') cwd)"
  "inspects cwd (Exec (js ''git ls-files -z'') cwd)"
  "inspects cwd (Exec (js ''git log --oneline -1'') cwd)"
  "inspects cwd (Exec (js ''git branch'') cwd)"
  "inspects cwd (Exec (js ''git branch --show-current'') cwd)"
  "inspects cwd (Exec ((js ''git log --oneline -- '') @ dquoted t) cwd)"
  by (auto simp: inspects_def gitLogFor_def)

lemma every_call_getActualFilename: "every_call (inspects cwd) (getActualFilename lc d n) e"
  by (simp add: every_call_def getActualFilename_run inspects_def Let_def)

lemma every_call_getStagedEntries: "every_call (inspects cwd) (getStagedEntries cwd) e"
  by (simp add: every_call_def getStagedEntries_run inspects_def)

lemma every_call_getTrackedEntries: "every_call (inspects cwd) (getTrackedEntries cwd) e"
  by (simp add: every_call_def getTrackedEntries_run inspects_def)

lemmas every_call_intros = every_call_return every_call_throw every_call_bind every_call_try
  every_call_catch every_call_if every_call_case_option every_call_case_sum
  every_call_prims every_call_executeCommand inspects_commands
  every_call_getActualFilename every_call_getStagedEntries every_call_getTrackedEntries

lemma every_call_validateGitInitialized: "every_call (inspects cwd) (validateGitInitialized cwd) e"
  unfolding validateGitInitialized_def Let_def
  by (intro every_call_intros)

lemma every_call_validateFileExists: "every_call (inspects cwd) (validateFileExists lc cwd f) e"
  unfolding validateFileExists_def Let_def
  by (intro every_call_intros)

lemma every_call_filesExistLoop: "every_call (inspects cwd) (filesExistLoop lc cwd fs acc) e"
proof (induction fs arbitrary: acc)
  case Nil
  show ?case by (simp add: every_call_return)
next
  case (Cons x xs)
  show ?case
    unfolding filesExistLoop.simps Let_def
    by (intro every_call_intros Cons.IH)
qed

lemma every_call_forEach:
  "(\<And>x. every_call P (f x) e) \<Longrightarrow> every_call P (io_forEach f xs) e"
  by (induction xs) (auto intro: every_call_return every_call_bind)

lemma every_call_validateFilesExist: "every_call (inspects cwd) (validateFilesExist lc cwd fs) e"
  unfolding validateFilesExist_def Let_def
  by (intro every_call_intros every_call_filesExistLoop every_call_forEach)

lemma every_call_validateFileStaged: "every_call (inspects cwd) (validateFileStaged lc cwd f) e"
  unfolding validateFileStaged_def Let_def
  by (intro every_call_intros)

lemma every_call_filesStagedLoop: "every_call (inspects cwd) (filesStagedLoop lc st fs acc) e"
proof (induction fs arbitrary: acc)
  case Nil
  show ?case by (simp add: every_call_return)
next
  case (Cons x xs)
  show ?case
    unfolding filesStagedLoop.simps Let_def
    by (intro every_call_intros Cons.IH)
qed

lemma every_call_validateFilesStaged: "every_call (inspects cwd) (validateFilesStaged lc cwd fs) e"
  unfolding validateFilesStaged_def Let_def
  by (intro every_call_intros every_call_filesStagedLoop)

lemma every_call_stagedProgress: "every_call (inspects cwd) (stagedProgress lc cwd f ab t) e"
  unfolding stagedProgress_def Let_def
  by (intro every_call_intros)

lemma every_call_validateFileCommitted: "every_call (inspects cwd) (validateFileCommitted lc cwd f) e"
  unfolding validateFileCommitted_def Let_def
  by (intro every_call_intros every_call_stagedProgress)

lemma every_call_validateCommitExists: "every_call (inspects cwd) (validateCommitExists cwd m) e"
  unfolding validateCommitExists_def Let_def
  by (intro every_call_intros)

lemma every_call_validateBranchExists: "every_call (inspects cwd) (validateBranchExists cwd b) e"
  unfolding validateBranchExists_def Let_def
  by (intro every_call_intros)

lemma every_call_validateBranchActive: "every_call (inspects cwd) (validateBranchActive cwd b) e"
  unfolding validateBranchActive_def Let_def
  by (intro every_call_intros)

lemma every_call_validateFileContains: "every_call (inspects cwd) (validateFileContains cwd f c) e"
  unfolding validateFileContains_def Let_def
  by (intro every_call_intros)

lemma every_call_validateStep: "every_call (inspects cwd) (validateStep lc v cwd) e"
  unfolding validateStep_def
proof (rule every_call_catch)
  show "every_call (inspects cwd)
     (if vtype v = (js ''git-initialized'') then validateGitInitialized cwd
        else if vtype v = (js ''file-exists'') then validateFileExists lc cwd (v_file v)
        else if vtype v = (js ''files-exist'') then validateFilesExist lc cwd (v_files v)
        else if vtype v = (js ''file-staged'') then validateFileStaged lc cwd (v_file v)
        else if vtype v = (js ''files-staged'') then validateFilesStaged lc cwd (v_files v)
        else if vtype v = (js ''file-committed'') then validateFileCommitted lc cwd (v_file v)
        else if vtype v = (js ''commit-exists'') then validateCommitExists cwd (v_message v)
        else if vtype v = (js ''branch-exists'') then validateBranchExists cwd (v_branch v)
        else if vtype v = (js ''branch-active'') then validateBranchActive cwd (v_branch v)
        else if vtype v = (js ''file-contains'')
          then validateFileContains cwd (v_file v) (v_content v)
        else io_return \<lparr>passed = False,
                        message = (js ''Unknown validation type: '') @ vtype v,
                        resolvedFile = None\<rparr>) e"
    by (simp add: every_call_validateGitInitialized every_call_validateFileExists
        every_call_validateFilesExist every_call_validateFileStaged every_call_validateFilesStaged
        every_call_validateFileCommitted every_call_validateCommitExists
        every_call_validateBranchExists every_call_validateBranchActive
        every_call_validateFileContains every_call_return)
qed (rule every_call_return)

lemma readOnlyGitQuery_log:
  assumes "\<not> list_ex shellSpecial t"
  shows "readOnlyGitQuery (gitLogFor t)"
proof -
  define pre where "pre = (js ''git log --oneline -- '') @ [DQUOTE]"
  have c: "gitLogFor t = pre @ t @ [DQUOTE]"
    by (simp add: gitLogFor_def dquoted_def pre_def)
  have "length pre < length (pre @ t @ [DQUOTE])" by simp
  moreover have "take (length pre) (pre @ t @ [DQUOTE]) = pre" by simp
  moreover have "last (pre @ t @ [DQUOTE]) = DQUOTE" by simp
  moreover have "butlast (drop (length pre) (pre @ t @ [DQUOTE])) = t" by simp
  ultimately have "length pre < length (gitLogFor t) \<and> take (length pre) (gitLogFor t) = pre
      \<and> last (gitLogFor t) = DQUOTE
      \<and> \<not> list_ex shellSpecial (butlast (drop (length pre) (gitLogFor t)))"
    using assms unfolding c by simp
  then show ?thesis
    unfolding readOnlyGitQuery_def Let_def pre_def by (rule disjI2)
qed

lemma inspects_readOnly:
  assumes i: "inspects cwd a"
    and s: "\<And>t. a = Exec (gitLogFor t) cwd \<Longrightarrow> \<not> list_ex shellSpecial t"
  shows "readOnlyCall cwd a"
proof (cases a)
  case (Exec c d)
  from i have "d = cwd \<and> (c \<in> set [(js ''git diff --cached --name-only -z''), (js ''git ls-files -z''),
                        (js ''git log --oneline -1''), (js ''git branch''), (js ''git branch --show-current'')]
               \<or> (\<exists>t. c = gitLogFor t))"
    unfolding inspects_def Exec by (simp only: action.case)
  then have d: "d = cwd"
    and c: "c \<in> set [(js ''git diff --cached --name-only -z''), (js ''git ls-files -z''),
                        (js ''git log --oneline -1''), (js ''git branch''), (js ''git branch --show-current'')]
               \<or> (\<exists>t. c = gitLogFor t)"
    by blast+
  from c have q: "readOnlyGitQuery c"
  proof
    assume "c \<in> set [(js ''git diff --cached --name-only -z''), (js ''git ls-files -z''),
                        (js ''git log --oneline -1''), (js ''git branch''), (js ''git branch --show-current'')]"
    then show ?thesis unfolding readOnlyGitQuery_def by (rule disjI1)
  next
    assume "\<exists>t. c = gitLogFor t"
    then obtain t where t: "c = gitLogFor t" ..
    with s Exec d have "\<not> list_ex shellSpecial t" by simp
    then have "readOnlyGitQuery (gitLogFor t)" by (rule readOnlyGitQuery_log)
    with t show ?thesis by simp
  qed
  show ?thesis unfolding readOnlyCall_def Exec using d q by (simp only: action.case simp_thms)
qed (simp_all only: readOnlyCall_def action.case)

lemma validateStep_read_only:
  assumes "\<And>t. Exec (gitLogFor t) cwd \<in> set (calls (validateStep lc v cwd) e) \<Longrightarrow> \<not> list_ex shellSpecial t"
  shows "list_all (readOnlyCall cwd) (calls (validateStep lc v cwd) e)"
proof -
  have "readOnlyCall cwd a" if a: "a \<in> set (calls (validateStep lc v cwd) e)" for a
  proof (rule inspects_readOnly)
    from every_call_validateStep [of cwd lc v e] a show "inspects cwd a"
      by (simp add: every_call_def calls_def list_all_iff)
  next
    fix t assume "a = Exec (gitLogFor t) cwd"
    with a assms show "\<not> list_ex shellSpecial t" by simp
  qed
  then show ?thesis by (simp add: list_all_iff)
qed

section \<open>The path normalizer\<close>

text \<open>
  C3 (counterexample). The normalizer is not idempotent, and it does not remove every
  leading \<open>./\<close>: from \<^verbatim>\<open>././a\<close> it removes one \<open>./\<close> and gives \<^verbatim>\<open>./a\<close>, which a second
  application turns into \<^verbatim>\<open>a\<close>.
\<close>

theorem normalizer_not_idempotent:
  "normalizeGitEntry (js ''././a'') = js ''./a''
   \<and> normalizeGitEntry (normalizeGitEntry (js ''././a'')) = js ''a''
   \<and> normalizeGitEntry (normalizeGitEntry (js ''././a'')) \<noteq> normalizeGitEntry (js ''././a'')"
  by code_simp

text \<open>
  C3 (amended). For every input string \<open>x\<close> the normalizer returns a string \<open>w\<close>, and
  \<open>w\<close> is this: take \<open>x\<close> with every carriage return removed and every backslash
  replaced by a forward slash; if that begins with \<open>./\<close>, remove this \<open>./\<close> and the
  slashes that directly follow it (once: a \<open>./\<close> that comes next stays); \<open>w\<close> is what is
  left between the white space at the two ends, so \<open>w\<close> neither begins nor ends with
  white space. Applying the normalizer to \<open>w\<close> again gives \<open>w\<close> if and only if \<open>w\<close> does
  not begin with \<open>./\<close>.
\<close>

theorem normalizer_properties:
  "(let cleaned = map (\<lambda>c. if c = BACKSLASH then SLASH else c) (filter (\<lambda>c. c \<noteq> CR) x);
        stem = (if take 2 cleaned = [DOT, SLASH]
                then dropWhile (\<lambda>c. c = SLASH) (drop 2 cleaned) else cleaned);
        w = normalizeGitEntry x
    in (\<exists>pre post. stem = pre @ w @ post \<and> list_all isWhiteSpace pre \<and> list_all isWhiteSpace post)
       \<and> (w \<noteq> [] \<longrightarrow> \<not> isWhiteSpace (hd w) \<and> \<not> isWhiteSpace (last w))
       \<and> BACKSLASH \<notin> set w
       \<and> CR \<notin> set w
       \<and> (normalizeGitEntry w = w \<longleftrightarrow> take 2 w \<noteq> [DOT, SLASH]))"
proof -
  define cleaned where "cleaned = map (\<lambda>c. if c = BACKSLASH then SLASH else c) (filter (\<lambda>c. c \<noteq> CR) x)"
  define stem where "stem = (if take 2 cleaned = [DOT, SLASH]
                then dropWhile (\<lambda>c. c = SLASH) (drop 2 cleaned) else cleaned)"
  define w where "w = normalizeGitEntry x"
  have w: "w = trim stem"
    by (simp add: w_def stem_def cleaned_def normalizeGitEntry_def normalizeRel_def
        replaceBackslashes_def stripDotSlash_code)
  have c1: "\<exists>pre post. stem = pre @ w @ post \<and> list_all isWhiteSpace pre \<and> list_all isWhiteSpace post"
    unfolding w by (rule trim_decomposition)
  have c2: "w \<noteq> [] \<longrightarrow> \<not> isWhiteSpace (hd w) \<and> \<not> isWhiteSpace (last w)"
    unfolding w using trim_ends [of stem] by simp
  have c3: "BACKSLASH \<notin> set w"
    by (simp add: w_def normalizeGitEntry_def normalizeRel_no_backslash)
  have c4: "CR \<notin> set w"
    unfolding w_def by (rule normalizeGitEntry_no_CR)
  have again: "normalizeGitEntry w = normalizeRel w"
    unfolding w_def by (rule normalizeGitEntry_again)
  have c5: "normalizeGitEntry w = w \<longleftrightarrow> take 2 w \<noteq> [DOT, SLASH]"
  proof
    assume fixed: "normalizeGitEntry w = w"
    show "take 2 w \<noteq> [DOT, SLASH]"
    proof
      assume "take 2 w = [DOT, SLASH]"
      then have "length (normalizeRel w) < length w" by (rule normalizeRel_shorter)
      with fixed again show False by simp
    qed
  next
    assume "take 2 w \<noteq> [DOT, SLASH]"
    then have "normalizeRel w = w"
      unfolding w_def normalizeGitEntry_def by (rule normalizeRel_idem_if)
    with again show "normalizeGitEntry w = w" by simp
  qed
  from c1 c2 c3 c4 c5 have "(\<exists>pre post. stem = pre @ w @ post \<and> list_all isWhiteSpace pre \<and> list_all isWhiteSpace post)
       \<and> (w \<noteq> [] \<longrightarrow> \<not> isWhiteSpace (hd w) \<and> \<not> isWhiteSpace (last w))
       \<and> BACKSLASH \<notin> set w
       \<and> CR \<notin> set w
       \<and> (normalizeGitEntry w = w \<longleftrightarrow> take 2 w \<noteq> [DOT, SLASH])"
    by (intro conjI)
  then show ?thesis unfolding Let_def cleaned_def [symmetric] stem_def [symmetric] w_def [symmetric] .
qed

theorem normalizer_properties_witness:
  "normalizeGitEntry ([SPACE, 0xA0] @ js ''./docs'' @ [BACKSLASH] @ js ''a.txt'' @ [CR, LF]) = js ''./docs/a.txt''
   \<and> normalizeGitEntry (js ''.//docs'' @ [BACKSLASH] @ js ''a.txt'' @ [CR, LF]) = js ''docs/a.txt''
   \<and> \<not> isWhiteSpace (hd (normalizeGitEntry (js ''.//docs'' @ [BACKSLASH] @ js ''a.txt'' @ [CR, LF])))
   \<and> \<not> isWhiteSpace (last (normalizeGitEntry (js ''.//docs'' @ [BACKSLASH] @ js ''a.txt'' @ [CR, LF])))
   \<and> normalizeGitEntry (normalizeGitEntry (js ''.//docs'' @ [BACKSLASH] @ js ''a.txt'' @ [CR, LF]))
       = normalizeGitEntry (js ''.//docs'' @ [BACKSLASH] @ js ''a.txt'' @ [CR, LF])"
proof -
  let ?x = "js ''.//docs'' @ [BACKSLASH] @ js ''a.txt'' @ [CR, LF]"
  have u: "normalizeGitEntry ([SPACE, 0xA0] @ js ''./docs'' @ [BACKSLASH] @ js ''a.txt'' @ [CR, LF]) = js ''./docs/a.txt''"
    by code_simp
  have v: "normalizeGitEntry ?x = js ''docs/a.txt''" by code_simp
  have ne: "normalizeGitEntry ?x \<noteq> []" unfolding v by simp
  have h: "take 2 (normalizeGitEntry ?x) \<noteq> [DOT, SLASH]" unfolding v by code_simp
  note p = normalizer_properties [of ?x, unfolded Let_def]
  from p [THEN conjunct2, THEN conjunct1, rule_format, OF ne]
  have e: "\<not> isWhiteSpace (hd (normalizeGitEntry ?x)) \<and> \<not> isWhiteSpace (last (normalizeGitEntry ?x))" .
  from p [THEN conjunct2, THEN conjunct2, THEN conjunct2, THEN conjunct2] h
  have i: "normalizeGitEntry (normalizeGitEntry ?x) = normalizeGitEntry ?x" by (rule iffD2)
  from u v e i show ?thesis by (intro conjI) simp_all
qed

section \<open>The command executor\<close>

text \<open>
  C10 (counterexample). A subprocess that times out after printing a line: \<open>execa\<close>,
  called with \<open>reject: false\<close>, resolves; \<open>executeCommand\<close> returns \<open>success = false\<close> with
  the captured output as \<open>stdout\<close> and with no error message.
\<close>

theorem executeCommand_timeout_counterexample:
  "execa env_timeout (js ''git status'') (js ''/w'')
     = Resolved \<lparr>x_exitCode = None, x_stdout = (js ''On branch main''), x_stderr = [], x_timedOut = True\<rparr>
   \<and> outcome (executeCommand (js ''git status'') (js ''/w'')) env_timeout
     = Inr \<lparr>success = False, stdout = (js ''On branch main''), stderr = [], error = None\<rparr>"
  by (simp add: env_timeout_def outcome_def executeCommand_def execa_call_def io_defs)

text \<open>
  C10 (amended). \<open>executeCommand\<close> always returns an \<open>ExecutionResult\<close> and never throws.
  When the \<open>execa\<close> call raises, the result is \<open>success = false\<close> with empty \<open>stdout\<close> and
  \<open>stderr\<close> and, as error message, the message of the \<open>Error\<close> raised or
  \<^verbatim>\<open>Unknown error\<close>. When \<open>execa\<close> resolves (with \<open>reject: false\<close> also after a timeout or
  a failed subprocess), \<open>success\<close> is true if and only if the exit code is zero, \<open>stdout\<close>
  and \<open>stderr\<close> are the captured ones, and there is no error message.
\<close>

theorem executeCommand_result:
  "(\<exists>r. outcome (executeCommand command cwd) e = Inr r)
   \<and> (\<forall>x. execa e command cwd = Rejected x \<longrightarrow>
         outcome (executeCommand command cwd) e
           = Inr \<lparr>success = False, stdout = [], stderr = [],
                  error = Some (case x of ErrorObj m \<Rightarrow> m | NonError \<Rightarrow> (js ''Unknown error''))\<rparr>)
   \<and> (\<forall>res. execa e command cwd = Resolved res \<longrightarrow>
         outcome (executeCommand command cwd) e
           = Inr \<lparr>success = (x_exitCode res = Some 0), stdout = x_stdout res,
                  stderr = x_stderr res, error = None\<rparr>)"
  by (cases "execa e command cwd")
     (simp_all add: outcome_def executeCommand_def execa_call_def io_defs)

theorem executeCommand_result_witness:
  "execa env_rejects (js ''git status'') (js ''/w'') = Rejected (ErrorObj (js ''spawn /bin/sh ENOENT''))
   \<and> outcome (executeCommand (js ''git status'') (js ''/w'')) env_rejects
       = Inr \<lparr>success = False, stdout = [], stderr = [], error = Some (js ''spawn /bin/sh ENOENT'')\<rparr>
   \<and> execa env_timeout (js ''git status'') (js ''/w'')
       = Resolved \<lparr>x_exitCode = None, x_stdout = (js ''On branch main''), x_stderr = [], x_timedOut = True\<rparr>
   \<and> success (projr (outcome (executeCommand (js ''git status'') (js ''/w'')) env_timeout)) = False"
proof -
  have a: "execa env_rejects (js ''git status'') (js ''/w'') = Rejected (ErrorObj (js ''spawn /bin/sh ENOENT''))"
    by (simp add: env_rejects_def)
  have b: "execa env_timeout (js ''git status'') (js ''/w'')
       = Resolved \<lparr>x_exitCode = None, x_stdout = (js ''On branch main''), x_stderr = [], x_timedOut = True\<rparr>"
    by (simp add: env_timeout_def)
  from executeCommand_result [of "(js ''git status'')" "(js ''/w'')" env_rejects] a
  have c: "outcome (executeCommand (js ''git status'') (js ''/w'')) env_rejects
       = Inr \<lparr>success = False, stdout = [], stderr = [], error = Some (js ''spawn /bin/sh ENOENT'')\<rparr>"
    by simp
  from executeCommand_result [of "(js ''git status'')" "(js ''/w'')" env_timeout] b
  have d: "success (projr (outcome (executeCommand (js ''git status'') (js ''/w'')) env_timeout)) = False"
    by simp
  from a b c d show ?thesis by simp
qed

section \<open>The file-exists check\<close>

text \<open>
  C6. \<open>matches\<close> are the entries of the directory whose lowercased names equal the
  lowercased expected name, whatever the case mapping \<open>lc\<close> of the runtime is. With two
  or more of them, file-exists fails with a message that lists them all; with none it
  fails as not found, and a directory that cannot be read has none; with exactly one the
  resolver returns that entry, whatever its casing, and when the entry is a regular file
  the check passes and reports it.
\<close>

theorem file_exists_resolution:
  assumes dir: "dir = path_dirname (path_join cwd (normalizeRel f))"
    and base: "base = path_basename (normalizeRel f)"
    and matches: "matches = caseMatchesIn lc e dir base"
  shows "(2 \<le> length matches \<longrightarrow>
            outcome (validateFileExists lc cwd (Some f)) e
              = Inr \<lparr>passed = False,
                     message = (js ''Multiple entries match '') @ quoted base
                       @ (js '' with different casing: '') @ joinWith (js '', '') matches @ (js ''. Keep only one.''),
                     resolvedFile = None\<rparr>)
       \<and> (matches = [] \<longrightarrow>
            outcome (validateFileExists lc cwd (Some f)) e
              = Inr \<lparr>passed = False, message = (js ''File '') @ f @ (js '' not found''), resolvedFile = None\<rparr>)
       \<and> ((\<exists>x. fs_readdir e dir = Inl x) \<longrightarrow> matches = [])
       \<and> (\<forall>m. matches = [m] \<longrightarrow> outcome (getActualFilename lc dir base) e = Inr (Some m))
       \<and> (\<forall>m. matches = [m] \<and> m \<noteq> [] \<and> fs_stat e (path_join dir m) = Inr RegularFile \<longrightarrow>
            outcome (validateFileExists lc cwd (Some f)) e
              = Inr \<lparr>passed = True, message = (js ''File '') @ f @ (js '' exists (as '') @ m @ (js '')''),
                     resolvedFile = Some (normalizeRel (path_join (path_dirname (normalizeRel f)) m))\<rparr>)"
proof -
  have amb: "2 \<le> length matches \<longrightarrow>
      outcome (validateFileExists lc cwd (Some f)) e
        = Inr \<lparr>passed = False,
               message = (js ''Multiple entries match '') @ quoted base
                 @ (js '' with different casing: '') @ joinWith (js '', '') matches @ (js ''. Keep only one.''),
               resolvedFile = None\<rparr>"
    using validateFileExists_ambiguous [of lc e cwd f] by (simp add: dir base matches)
  have none: "matches = [] \<longrightarrow>
      outcome (validateFileExists lc cwd (Some f)) e
        = Inr \<lparr>passed = False, message = (js ''File '') @ f @ (js '' not found''), resolvedFile = None\<rparr>"
    using validateFileExists_none [of lc e cwd f] by (simp add: dir base matches)
  have unread: "(\<exists>x. fs_readdir e dir = Inl x) \<longrightarrow> matches = []"
    by (auto simp: matches caseMatchesIn_def)
  have one: "\<forall>m. matches = [m] \<longrightarrow> outcome (getActualFilename lc dir base) e = Inr (Some m)"
    by (simp add: matches outcome_def getActualFilename_run Let_def)
  have pass: "\<forall>m. matches = [m] \<and> m \<noteq> [] \<and> fs_stat e (path_join dir m) = Inr RegularFile \<longrightarrow>
      outcome (validateFileExists lc cwd (Some f)) e
        = Inr \<lparr>passed = True, message = (js ''File '') @ f @ (js '' exists (as '') @ m @ (js '')''),
               resolvedFile = Some (normalizeRel (path_join (path_dirname (normalizeRel f)) m))\<rparr>"
    using validateFileExists_pass [of lc e cwd f] by (simp add: dir base matches)
  from amb none unread one pass show ?thesis by blast
qed

theorem file_exists_resolution_witness:
  "outcome (validateFileExists asciiToLowerCase (js ''/w'') (Some (js ''f.txt'')))
       (repo_env [(js ''F.txt''), (js ''f.txt''), (js ''Readme.MD'')] (js ''hello'') not_a_repo not_a_repo not_a_repo)
     = Inr \<lparr>passed = False,
            message = (js ''Multiple entries match '') @ quoted (js ''f.txt'')
              @ (js '' with different casing: F.txt, f.txt. Keep only one.''),
            resolvedFile = None\<rparr>
   \<and> outcome (validateFileExists asciiToLowerCase (js ''/w'') (Some (js ''notes.txt'')))
       (repo_env [(js ''F.txt''), (js ''f.txt''), (js ''Readme.MD'')] (js ''hello'') not_a_repo not_a_repo not_a_repo)
     = Inr \<lparr>passed = False, message = (js ''File notes.txt not found''), resolvedFile = None\<rparr>
   \<and> outcome (validateFileExists asciiToLowerCase (js ''/w'') (Some (js ''docs/notes.txt'')))
       (repo_env [(js ''F.txt''), (js ''f.txt''), (js ''Readme.MD'')] (js ''hello'') not_a_repo not_a_repo not_a_repo)
     = Inr \<lparr>passed = False, message = (js ''File docs/notes.txt not found''), resolvedFile = None\<rparr>
   \<and> outcome (validateFileExists asciiToLowerCase (js ''/w'') (Some (js ''README.md'')))
       (repo_env [(js ''F.txt''), (js ''f.txt''), (js ''Readme.MD'')] (js ''hello'') not_a_repo not_a_repo not_a_repo)
     = Inr \<lparr>passed = True, message = (js ''File README.md exists (as Readme.MD)''),
            resolvedFile = Some (js ''Readme.MD'')\<rparr>"
proof -
  let ?e = "repo_env [(js ''F.txt''), (js ''f.txt''), (js ''Readme.MD'')] (js ''hello'') not_a_repo not_a_repo not_a_repo"
  have d1: "(js ''/w'') = path_dirname (path_join (js ''/w'') (normalizeRel (js ''f.txt'')))"
    and b1: "(js ''f.txt'') = path_basename (normalizeRel (js ''f.txt''))"
    and m1: "[(js ''F.txt''), (js ''f.txt'')] = caseMatchesIn asciiToLowerCase ?e (js ''/w'') (js ''f.txt'')"
    by code_simp+
  have d2: "(js ''/w'') = path_dirname (path_join (js ''/w'') (normalizeRel (js ''notes.txt'')))"
    and b2: "(js ''notes.txt'') = path_basename (normalizeRel (js ''notes.txt''))"
    and m2: "[] = caseMatchesIn asciiToLowerCase ?e (js ''/w'') (js ''notes.txt'')"
    by code_simp+
  have d3: "(js ''/w/docs'') = path_dirname (path_join (js ''/w'') (normalizeRel (js ''docs/notes.txt'')))"
    and b3: "(js ''notes.txt'') = path_basename (normalizeRel (js ''docs/notes.txt''))"
    and m3: "[] = caseMatchesIn asciiToLowerCase ?e (js ''/w/docs'') (js ''notes.txt'')"
    and u3: "fs_readdir ?e (js ''/w/docs'') = Inl ENOENT"
    by code_simp+
  have d4: "(js ''/w'') = path_dirname (path_join (js ''/w'') (normalizeRel (js ''README.md'')))"
    and b4: "(js ''README.md'') = path_basename (normalizeRel (js ''README.md''))"
    and m4: "[(js ''Readme.MD'')] = caseMatchesIn asciiToLowerCase ?e (js ''/w'') (js ''README.md'')"
    and s4: "fs_stat ?e (path_join (js ''/w'') (js ''Readme.MD'')) = Inr RegularFile"
    and r4: "normalizeRel (path_join (path_dirname (normalizeRel (js ''README.md''))) (js ''Readme.MD'')) = (js ''Readme.MD'')"
    by code_simp+
  from file_exists_resolution [OF d1 b1 m1]
  have c1: "outcome (validateFileExists asciiToLowerCase (js ''/w'') (Some (js ''f.txt''))) ?e
     = Inr \<lparr>passed = False,
            message = (js ''Multiple entries match '') @ quoted (js ''f.txt'')
              @ (js '' with different casing: F.txt, f.txt. Keep only one.''),
            resolvedFile = None\<rparr>"
    by (simp add: js_appends)
  from file_exists_resolution [OF d2 b2 m2]
  have c2: "outcome (validateFileExists asciiToLowerCase (js ''/w'') (Some (js ''notes.txt''))) ?e
     = Inr \<lparr>passed = False, message = (js ''File notes.txt not found''), resolvedFile = None\<rparr>"
    by (simp add: js_appends)
  from file_exists_resolution [OF d3 b3 m3] u3
  have c3: "outcome (validateFileExists asciiToLowerCase (js ''/w'') (Some (js ''docs/notes.txt''))) ?e
     = Inr \<lparr>passed = False, message = (js ''File docs/notes.txt not found''), resolvedFile = None\<rparr>"
    by (simp add: js_appends)
  from file_exists_resolution [OF d4 b4 m4] s4 r4
  have c4: "outcome (validateFileExists asciiToLowerCase (js ''/w'') (Some (js ''README.md''))) ?e
     = Inr \<lparr>passed = True, message = (js ''File README.md exists (as Readme.MD)''),
            resolvedFile = Some (js ''Readme.MD'')\<rparr>"
    by (simp add: js_appends)
  from c1 c2 c3 c4 show ?thesis by simp
qed

text \<open>
  C5 (counterexample). The file name \<^verbatim>\<open> a.txt\<close> begins with a space. Its case variant
  \<^verbatim>\<open> A.txt\<close> is the only entry of the directory and is a regular file, yet file-exists
  fails: the expected path is trimmed first, and \<^verbatim>\<open>a.txt\<close> is not in the directory.
\<close>

theorem file_exists_untrimmed_name_counterexample:
  "asciiToLowerCase (js '' A.txt'') = asciiToLowerCase (js '' a.txt'')
   \<and> fs_readdir (repo_env [(js '' A.txt'')] (js ''hello'') not_a_repo not_a_repo not_a_repo)
         (path_dirname (path_join (js ''/w'') (js '' a.txt''))) = Inr [(js '' A.txt'')]
   \<and> fs_stat (repo_env [(js '' A.txt'')] (js ''hello'') not_a_repo not_a_repo not_a_repo)
         (path_join (path_dirname (path_join (js ''/w'') (js '' a.txt''))) (js '' A.txt'')) = Inr RegularFile
   \<and> outcome (validateFileExists asciiToLowerCase (js ''/w'') (Some (js '' a.txt'')))
         (repo_env [(js '' A.txt'')] (js ''hello'') not_a_repo not_a_repo not_a_repo)
       = Inr \<lparr>passed = False, message = (js ''File  a.txt not found''), resolvedFile = None\<rparr>"
  by code_simp

text \<open>
  C5 (amended). For every file name \<open>f\<close> and every case variant \<open>f'\<close> of \<open>f\<close> (the two have
  the same lowercase form under the case mapping \<open>lc\<close> of the runtime), both plain names in
  normal form (one path segment other than \<open>.\<close> and \<open>..\<close>, no backslash, no white space at
  either end): if \<open>f'\<close> is the only entry of the directory and is a regular file, then
  file-exists on \<open>f\<close> passes and the resolved path of the verdict is \<open>f'\<close>.
\<close>

theorem file_exists_case_tolerance:
  assumes plain: "plainName f"
    and plain': "plainName f'"
    and variant: "lc f' = lc f"
    and only: "fs_readdir e (path_dirname (path_join cwd f)) = Inr [f']"
    and regular: "fs_stat e (path_join (path_dirname (path_join cwd f)) f') = Inr RegularFile"
  shows "outcome (validateFileExists lc cwd (Some f)) e
           = Inr \<lparr>passed = True, message = js ''File '' @ f @ js '' exists (as '' @ f' @ js '')'',
                  resolvedFile = Some f'\<rparr>"
proof -
  have n: "normalizeRel f = f" using plain by (rule normalizeRel_plain)
  have b: "path_basename f = f" using plain by (rule path_basename_plain)
  have cm: "caseMatchesIn lc e (path_dirname (path_join cwd (normalizeRel f)))
             (path_basename (normalizeRel f)) = [f']"
    using only variant by (simp add: caseMatchesIn_def n b)
  have ne: "f' \<noteq> []" using plain' by (simp add: plainName_def)
  have st: "fs_stat e (path_join (path_dirname (path_join cwd (normalizeRel f))) f') = Inr RegularFile"
    using regular by (simp add: n)
  have r: "normalizeRel (path_join (path_dirname (normalizeRel f)) f') = f'"
    using plain plain' by (simp add: n path_dirname_plain path_join_dot_plain normalizeRel_plain)
  from validateFileExists_pass [OF cm ne st] r show ?thesis by simp
qed

theorem file_exists_case_tolerance_witness:
  "plainName (js ''README.md'')
   \<and> plainName (js ''readme.md'')
   \<and> asciiToLowerCase (js ''readme.md'') = asciiToLowerCase (js ''README.md'')
   \<and> outcome (validateFileExists asciiToLowerCase (js ''/w'') (Some (js ''README.md'')))
         (repo_env [js ''readme.md''] (js ''hello'') not_a_repo not_a_repo not_a_repo)
       = Inr \<lparr>passed = True, message = js ''File README.md exists (as readme.md)'',
              resolvedFile = Some (js ''readme.md'')\<rparr>"
proof -
  let ?e = "repo_env [js ''readme.md''] (js ''hello'') not_a_repo not_a_repo not_a_repo"
  have p: "plainName (js ''README.md'')"
    and p': "plainName (js ''readme.md'')"
    and v: "asciiToLowerCase (js ''readme.md'') = asciiToLowerCase (js ''README.md'')"
    and d: "fs_readdir ?e (path_dirname (path_join (js ''/w'') (js ''README.md''))) = Inr [js ''readme.md'']"
    and s: "fs_stat ?e (path_join (path_dirname (path_join (js ''/w'') (js ''README.md''))) (js ''readme.md''))
              = Inr RegularFile"
    by code_simp+
  from file_exists_case_tolerance [OF p p' v d s]
  have "outcome (validateFileExists asciiToLowerCase (js ''/w'') (Some (js ''README.md''))) ?e
       = Inr \<lparr>passed = True, message = js ''File README.md exists (as readme.md)'',
              resolvedFile = Some (js ''readme.md'')\<rparr>"
    by (simp add: js_appends)
  with p p' v show ?thesis by (intro conjI)
qed

section \<open>The file-staged check\<close>

text \<open>
  C1 (counterexample). Only \<^verbatim>\<open>readme.md\<close> is staged. The check file-staged for
  \<^verbatim>\<open>README.md\<close> does not fail: it passes, and its message names the staged casing.
\<close>

theorem file_staged_case_variant_counterexample:
  "outcome (getStagedEntries (js ''/w''))
       (repo_env [(js ''readme.md'')] (js ''hello'') (exited 0 ((js ''readme.md'') @ [NUL]))
          (exited 0 ((js ''readme.md'') @ [NUL])) (exited 0 []))
     = Inr (Some [(js ''readme.md'')])
   \<and> outcome (validateStep asciiToLowerCase (v_none\<lparr>vtype := (js ''file-staged''), v_file := Some (js ''README.md'')\<rparr>) (js ''/w''))
       (repo_env [(js ''readme.md'')] (js ''hello'') (exited 0 ((js ''readme.md'') @ [NUL]))
          (exited 0 ((js ''readme.md'') @ [NUL])) (exited 0 []))
     = Inr \<lparr>passed = True, message = (js ''File README.md is staged (as readme.md)''),
            resolvedFile = None\<rparr>"
  by code_simp

text \<open>
  C1 (amended). In every working directory whose staged-entry list contains
  \<^verbatim>\<open>readme.md\<close> but not \<^verbatim>\<open>README.md\<close>, the check file-staged for \<^verbatim>\<open>README.md\<close> returns a
  passed verdict whose message names the staged casing \<^verbatim>\<open>readme.md\<close> when that is the only
  staged entry equal to the expected path up to case; when several staged entries are,
  it returns a failed verdict that asks to keep only one. Two paths are equal up to case
  when the case mapping \<open>lc\<close> of the runtime gives them the same lowercase form, as it
  does for \<^verbatim>\<open>readme.md\<close> and \<^verbatim>\<open>README.md\<close>.
\<close>

theorem file_staged_case_variant:
  assumes kind: "vtype v = js ''file-staged''" and vfile: "v_file v = Some (js ''README.md'')"
    and st: "outcome (getStagedEntries cwd) e = Inr (Some staged)"
    and low: "js ''readme.md'' \<in> set staged"
    and up: "js ''README.md'' \<notin> set staged"
    and variant: "lc (js ''readme.md'') = lc (js ''README.md'')"
  shows "(length (filter (\<lambda>x. lc x = lc (js ''README.md'')) staged) = 1 \<longrightarrow>
            outcome (validateStep lc v cwd) e
              = Inr \<lparr>passed = True, message = js ''File README.md is staged (as readme.md)'',
                     resolvedFile = None\<rparr>)
       \<and> (length (filter (\<lambda>x. lc x = lc (js ''README.md'')) staged) \<noteq> 1 \<longrightarrow>
            outcome (validateStep lc v cwd) e
              = Inr \<lparr>passed = False,
                     message = js ''Multiple staged files match '' @ quoted (js ''README.md'')
                       @ js '' ignoring case. Keep only one.'',
                     resolvedFile = None\<rparr>)"
proof -
  let ?hits = "filter (\<lambda>x. lc x = lc (js ''README.md'')) staged"
  have n: "normalizeGitEntry (js ''README.md'') = js ''README.md''" by code_simp
  from low variant have mem: "js ''readme.md'' \<in> set ?hits" by simp
  have ne: "?hits \<noteq> []"
  proof
    assume h: "?hits = []"
    from mem [unfolded h] show False by simp
  qed
  from up n have nin: "normalizeGitEntry (js ''README.md'') \<notin> set staged" by simp
  note run = validateFileStaged_variant [OF st nin, unfolded n]
  have one: "outcome (validateFileStaged lc cwd (Some (js ''README.md''))) e
              = Inr \<lparr>passed = True, message = js ''File README.md is staged (as readme.md)'',
                     resolvedFile = None\<rparr>" if "length ?hits = 1"
  proof -
    from that obtain h where h: "?hits = [h]" by (cases ?hits) auto
    with mem have "h = js ''readme.md''" by simp
    with h have hh: "?hits = [js ''readme.md'']" by simp
    show ?thesis
      unfolding run by (simp add: uniqueCaseInsensitiveMatch_def hh truthy_def Let_def js_appends)
  qed
  have many: "outcome (validateFileStaged lc cwd (Some (js ''README.md''))) e
              = Inr \<lparr>passed = False,
                     message = js ''Multiple staged files match '' @ quoted (js ''README.md'')
                       @ js '' ignoring case. Keep only one.'',
                     resolvedFile = None\<rparr>" if "length ?hits \<noteq> 1"
  proof -
    from that ne have "length ?hits \<noteq> 0" "length ?hits \<noteq> 1" by simp_all
    then show ?thesis
      unfolding run by (simp add: uniqueCaseInsensitiveMatch_def Let_def)
  qed
  from one many validateStep_file_staged [OF kind, of lc cwd e] vfile show ?thesis by simp
qed

theorem file_staged_case_variant_witness:
  "outcome (validateStep asciiToLowerCase (v_none\<lparr>vtype := (js ''file-staged''), v_file := Some (js ''README.md'')\<rparr>) (js ''/w''))
       (repo_env [(js ''readme.md'')] (js ''hello'') (exited 0 ((js ''readme.md'') @ [NUL]))
          (exited 0 ((js ''notes.txt'') @ [NUL] @ (js ''readme.md'') @ [NUL])) (exited 0 []))
     = Inr \<lparr>passed = True, message = (js ''File README.md is staged (as readme.md)''),
            resolvedFile = None\<rparr>
   \<and> outcome (validateStep asciiToLowerCase (v_none\<lparr>vtype := (js ''file-staged''), v_file := Some (js ''README.md'')\<rparr>) (js ''/w''))
       (repo_env [(js ''readme.md'')] (js ''hello'') (exited 0 ((js ''readme.md'') @ [NUL]))
          (exited 0 ((js ''Readme.md'') @ [NUL] @ (js ''readme.md'') @ [NUL])) (exited 0 []))
     = Inr \<lparr>passed = False,
            message = (js ''Multiple staged files match '') @ quoted (js ''README.md'')
              @ (js '' ignoring case. Keep only one.''),
            resolvedFile = None\<rparr>"
proof -
  let ?v = "v_none\<lparr>vtype := (js ''file-staged''), v_file := Some (js ''README.md'')\<rparr>"
  let ?e1 = "repo_env [(js ''readme.md'')] (js ''hello'') (exited 0 ((js ''readme.md'') @ [NUL]))
          (exited 0 ((js ''notes.txt'') @ [NUL] @ (js ''readme.md'') @ [NUL])) (exited 0 [])"
  let ?e2 = "repo_env [(js ''readme.md'')] (js ''hello'') (exited 0 ((js ''readme.md'') @ [NUL]))
          (exited 0 ((js ''Readme.md'') @ [NUL] @ (js ''readme.md'') @ [NUL])) (exited 0 [])"
  have k: "vtype ?v = (js ''file-staged'')" and f: "v_file ?v = Some (js ''README.md'')"
    by (simp_all add: v_none_def)
  have s1: "outcome (getStagedEntries (js ''/w'')) ?e1 = Inr (Some [(js ''notes.txt''), (js ''readme.md'')])"
    and s2: "outcome (getStagedEntries (js ''/w'')) ?e2 = Inr (Some [(js ''Readme.md''), (js ''readme.md'')])"
    by code_simp+
  have l1: "length (filter (\<lambda>x. asciiToLowerCase x = asciiToLowerCase (js ''README.md'')) [(js ''notes.txt''), (js ''readme.md'')]) = 1"
    and l2: "length (filter (\<lambda>x. asciiToLowerCase x = asciiToLowerCase (js ''README.md'')) [(js ''Readme.md''), (js ''readme.md'')]) \<noteq> 1"
    by code_simp+
  have m1: "(js ''readme.md'') \<in> set [(js ''notes.txt''), (js ''readme.md'')]"
    and u1: "(js ''README.md'') \<notin> set [(js ''notes.txt''), (js ''readme.md'')]"
    and m2: "(js ''readme.md'') \<in> set [(js ''Readme.md''), (js ''readme.md'')]"
    and u2: "(js ''README.md'') \<notin> set [(js ''Readme.md''), (js ''readme.md'')]"
    by simp_all
  have var: "asciiToLowerCase (js ''readme.md'') = asciiToLowerCase (js ''README.md'')" by code_simp
  from file_staged_case_variant [OF k f s1 m1 u1 var] l1
  have c1: "outcome (validateStep asciiToLowerCase ?v (js ''/w'')) ?e1
     = Inr \<lparr>passed = True, message = (js ''File README.md is staged (as readme.md)''),
            resolvedFile = None\<rparr>"
    by blast
  from file_staged_case_variant [OF k f s2 m2 u2 var] l2
  have c2: "outcome (validateStep asciiToLowerCase ?v (js ''/w'')) ?e2
     = Inr \<lparr>passed = False,
            message = (js ''Multiple staged files match '') @ quoted (js ''README.md'')
              @ (js '' ignoring case. Keep only one.''),
            resolvedFile = None\<rparr>"
    by blast
  from c1 c2 show ?thesis by (rule conjI)
qed

section \<open>The file-contains check\<close>

text \<open>
  C2 (the code at the failing input). The directory holds only \<^verbatim>\<open>readme.md\<close>, a regular
  file with the text \<^verbatim>\<open>hello world\<close>, on a filesystem that compares names exactly. The
  check file-exists for \<^verbatim>\<open>README.md\<close> passes with the name found, and file-contains passes
  for \<^verbatim>\<open>readme.md\<close>; but file-contains for \<^verbatim>\<open>README.md\<close> fails: it calls \<open>stat\<close> on the
  expected path without looking for a case variant.
\<close>

theorem file_contains_case_sensitive:
  "fs_readdir (repo_env [(js ''readme.md'')] (js ''hello world'') not_a_repo not_a_repo not_a_repo) (js ''/w'')
     = Inr [(js ''readme.md'')]
   \<and> outcome (validateStep asciiToLowerCase (v_none\<lparr>vtype := (js ''file-exists''), v_file := Some (js ''README.md'')\<rparr>) (js ''/w''))
       (repo_env [(js ''readme.md'')] (js ''hello world'') not_a_repo not_a_repo not_a_repo)
     = Inr \<lparr>passed = True, message = (js ''File README.md exists (as readme.md)''),
            resolvedFile = Some (js ''readme.md'')\<rparr>
   \<and> outcome (validateStep asciiToLowerCase (v_none\<lparr>vtype := (js ''file-contains''), v_file := Some (js ''readme.md''),
                                    v_content := Some (js ''hello'')\<rparr>) (js ''/w''))
       (repo_env [(js ''readme.md'')] (js ''hello world'') not_a_repo not_a_repo not_a_repo)
     = Inr \<lparr>passed = True, message = (js ''File readme.md contains expected content''),
            resolvedFile = None\<rparr>
   \<and> outcome (validateStep asciiToLowerCase (v_none\<lparr>vtype := (js ''file-contains''), v_file := Some (js ''README.md''),
                                    v_content := Some (js ''hello'')\<rparr>) (js ''/w''))
       (repo_env [(js ''readme.md'')] (js ''hello world'') not_a_repo not_a_repo not_a_repo)
     = Inr \<lparr>passed = False, message = (js ''Failed to read README.md''), resolvedFile = None\<rparr>"
  by code_simp

section \<open>The git-initialized check\<close>

text \<open>
  C8 (the code at the failing input). The entry \<^verbatim>\<open>.git\<close> of the working directory is a
  regular file, not a directory; git-initialized passes all the same, since it only
  asks whether the path can be accessed.
\<close>

theorem git_initialized_regular_file:
  "fs_stat (repo_env [(js ''.git'')] (js ''hello'') not_a_repo not_a_repo not_a_repo) (path_join (js ''/w'') (js ''.git''))
     = Inr RegularFile
   \<and> outcome (validateStep asciiToLowerCase (v_none\<lparr>vtype := (js ''git-initialized'')\<rparr>) (js ''/w''))
       (repo_env [(js ''.git'')] (js ''hello'') not_a_repo not_a_repo not_a_repo)
     = Inr \<lparr>passed = True, message = (js ''Git repository initialized successfully''),
            resolvedFile = None\<rparr>"
  by code_simp

section \<open>The calls of an evaluation\<close>

text \<open>
  C9 (the code at the failing input). The working directory holds a regular file named
  \<^verbatim>\<open>$(touch pwned)\<close>. The check file-committed for that name puts the name between double
  quotes into the command line of \<open>git log\<close> and runs it through the shell, where the
  command substitution is executed: the call is not a read-only git query.
\<close>

theorem file_committed_shell_injection:
  "calls (validateStep asciiToLowerCase (v_none\<lparr>vtype := (js ''file-committed''), v_file := Some (js ''$(touch pwned)'')\<rparr>) (js ''/w''))
       (repo_env [(js ''$(touch pwned)'')] (js ''hello'') not_a_repo not_a_repo not_a_repo)
     = [Readdir (js ''/w''), Stat (js ''/w/$(touch pwned)''), Exec (js ''git ls-files -z'') (js ''/w''),
        Exec ((js ''git log --oneline -- '') @ dquoted (js ''$(touch pwned)'')) (js ''/w''),
        Exec (js ''git diff --cached --name-only -z'') (js ''/w'')]
   \<and> \<not> readOnlyGitQuery ((js ''git log --oneline -- '') @ dquoted (js ''$(touch pwned)''))
   \<and> \<not> list_all (readOnlyCall (js ''/w''))
         (calls (validateStep asciiToLowerCase (v_none\<lparr>vtype := (js ''file-committed''), v_file := Some (js ''$(touch pwned)'')\<rparr>) (js ''/w''))
            (repo_env [(js ''$(touch pwned)'')] (js ''hello'') not_a_repo not_a_repo not_a_repo))"
  by code_simp

section \<open>The dispatcher\<close>

text \<open>
  C4 (the code at the failing input). A file-contains descriptor without \<open>content\<close>, on a
  file whose text contains the word \<^verbatim>\<open>undefined\<close>: the verdict is passed. The missing
  field is not reported: \<open>includes\<close> searches for the text \<^verbatim>\<open>undefined\<close>. With the
  content \<^verbatim>\<open>hello\<close> the same check on the same file fails, and a file-exists descriptor
  without \<open>file\<close> fails, with the message of the \<open>TypeError\<close> caught.
\<close>

theorem file_contains_missing_content:
  "v_content (v_none\<lparr>vtype := js ''file-contains'', v_file := Some (js ''notes.txt'')\<rparr>) = None
   \<and> outcome (validateStep asciiToLowerCase
         (v_none\<lparr>vtype := js ''file-contains'', v_file := Some (js ''notes.txt'')\<rparr>) (js ''/w''))
       (repo_env [js ''notes.txt''] (js ''x = undefined'') not_a_repo not_a_repo not_a_repo)
     = Inr \<lparr>passed = True, message = js ''File notes.txt contains expected content'',
            resolvedFile = None\<rparr>
   \<and> outcome (validateStep asciiToLowerCase
         (v_none\<lparr>vtype := js ''file-contains'', v_file := Some (js ''notes.txt''),
                  v_content := Some (js ''hello'')\<rparr>) (js ''/w''))
       (repo_env [js ''notes.txt''] (js ''x = undefined'') not_a_repo not_a_repo not_a_repo)
     = Inr \<lparr>passed = False, message = js ''File notes.txt doesn'' @ [SQUOTE] @ js ''t contain expected content'',
            resolvedFile = None\<rparr>
   \<and> outcome (validateStep asciiToLowerCase (v_none\<lparr>vtype := js ''file-exists''\<rparr>) (js ''/w''))
       (repo_env [js ''notes.txt''] (js ''x = undefined'') not_a_repo not_a_repo not_a_repo)
     = Inr \<lparr>passed = False,
            message = js ''Cannot read properties of undefined (reading '' @ [SQUOTE] @ js ''replace''
              @ [SQUOTE] @ js '')'',
            resolvedFile = None\<rparr>"
  by code_simp

section \<open>The file-committed check\<close>

text \<open>
  C7 (the code at the failing input). The working directory holds the regular file
  \<^verbatim>\<open>a$b.txt\<close>, which has been committed and not changed since: it is tracked, nothing is
  staged, and it is in the history. The check file-committed for it fails with the
  "stage it" message. The path goes between double quotes into the command line of
  \<open>git log\<close>, the shell replaces \<^verbatim>\<open>$b\<close> by nothing, and git is asked about \<^verbatim>\<open>a.txt\<close>. In
  the same kind of directory the three stages come out as described for the file
  \<^verbatim>\<open>ab.txt\<close>: created, staged, committed.
\<close>

theorem file_committed_dollar_path:
  "expandUnset False (js ''a$b.txt'') = js ''a.txt''
   \<and> outcome (validateStep asciiToLowerCase
         (v_none\<lparr>vtype := js ''file-committed'', v_file := Some (js ''a$b.txt'')\<rparr>) (js ''/w''))
       (git_env [js ''a$b.txt''] [] [js ''a$b.txt''])
     = Inr \<lparr>passed = False,
            message = js ''Progress: file created. Next: stage it. Run: git add a$b.txt'',
            resolvedFile = Some (js ''a$b.txt'')\<rparr>
   \<and> outcome (validateStep asciiToLowerCase
         (v_none\<lparr>vtype := js ''file-committed'', v_file := Some (js ''ab.txt'')\<rparr>) (js ''/w''))
       (git_env [js ''ab.txt''] [] [])
     = Inr \<lparr>passed = False,
            message = js ''Progress: file created. Next: stage it. Run: git add ab.txt'',
            resolvedFile = Some (js ''ab.txt'')\<rparr>
   \<and> outcome (validateStep asciiToLowerCase
         (v_none\<lparr>vtype := js ''file-committed'', v_file := Some (js ''ab.txt'')\<rparr>) (js ''/w''))
       (git_env [js ''ab.txt''] [js ''ab.txt''] [])
     = Inr \<lparr>passed = False,
            message = js ''Progress: file staged. Next: commit it. Run: git commit -m ''
              @ dquoted (js ''add ab.txt''),
            resolvedFile = Some (js ''ab.txt'')\<rparr>
   \<and> outcome (validateStep asciiToLowerCase
         (v_none\<lparr>vtype := js ''file-committed'', v_file := Some (js ''ab.txt'')\<rparr>) (js ''/w''))
       (git_env [js ''ab.txt''] [] [js ''ab.txt''])
     = Inr \<lparr>passed = True, message = js ''File ab.txt has been committed'',
            resolvedFile = Some (js ''ab.txt'')\<rparr>"
  by code_simp

end
